theory Spec2Isabelle
  imports Complex_Main "HOL-Library.Sublist"
begin

section \<open>JavaScript values\<close>

text \<open>
  A JavaScript string is a sequence of UTF-16 code units; \<open>length\<close>, \<open>substring\<close> and
  \<open>includes\<close> count and compare code units. String literals of the source are ASCII and
  are written \<open>ascii ''...''\<close>.
\<close>

type_synonym jsstring = "nat list"

definition ascii :: "string \<Rightarrow> jsstring" where
  "ascii s = map of_char s"

text \<open>\<open>s.includes(sub)\<close>: \<open>sub\<close> occurs in \<open>s\<close> as a contiguous block.\<close>

fun str_includes :: "jsstring \<Rightarrow> jsstring \<Rightarrow> bool" where
  "str_includes [] sub = (sub = [])"
| "str_includes (c # cs) sub = (prefix sub (c # cs) \<or> str_includes cs sub)"

text \<open>
  \<open>toLowerCase\<close> and \<open>toUpperCase\<close> on the ASCII letters. The Unicode case mappings of
  code units outside ASCII are not modelled: such code units are left as they are.
\<close>

definition toLowerCase :: "jsstring \<Rightarrow> jsstring" where
  "toLowerCase s = map (\<lambda>c. if 65 \<le> c \<and> c \<le> 90 then c + 32 else c) s"

definition toUpperCase :: "jsstring \<Rightarrow> jsstring" where
  "toUpperCase s = map (\<lambda>c. if 97 \<le> c \<and> c \<le> 122 then c - 32 else c) s"

text \<open>
  A JavaScript number is an IEEE double. The model keeps the values that decide the
  control flow of this program: the finite numbers as reals (rounding and overflow
  are not modelled), the two infinities and \<open>NaN\<close>.
\<close>

datatype jsnum = NaN | NegInf | Num real | PosInf

fun js_lt :: "jsnum \<Rightarrow> jsnum \<Rightarrow> bool" where
  "js_lt NaN _ = False"
| "js_lt _ NaN = False"
| "js_lt NegInf NegInf = False"
| "js_lt NegInf _ = True"
| "js_lt (Num a) (Num b) = (a < b)"
| "js_lt (Num a) PosInf = True"
| "js_lt (Num a) NegInf = False"
| "js_lt PosInf _ = False"

definition js_gt :: "jsnum \<Rightarrow> jsnum \<Rightarrow> bool" where
  "js_gt a b = js_lt b a"

text \<open>\<open>Math.min(a, b)\<close> and \<open>Math.max(a, b)\<close>: \<open>NaN\<close> if either argument is \<open>NaN\<close>.\<close>

definition js_min :: "jsnum \<Rightarrow> jsnum \<Rightarrow> jsnum" where
  "js_min a b = (if a = NaN \<or> b = NaN then NaN else if js_lt b a then b else a)"

definition js_max :: "jsnum \<Rightarrow> jsnum \<Rightarrow> jsnum" where
  "js_max a b = (if a = NaN \<or> b = NaN then NaN else if js_lt a b then b else a)"

text \<open>\<open>a / b\<close> on finite numbers: a zero divisor gives an infinity or \<open>NaN\<close>, never an exception.\<close>

definition js_div :: "real \<Rightarrow> real \<Rightarrow> jsnum" where
  "js_div a b =
     (if b = 0 then (if a = 0 then NaN else if 0 < a then PosInf else NegInf)
      else Num (a / b))"

text \<open>A number lies in the closed unit interval.\<close>

fun in_unit :: "jsnum \<Rightarrow> bool" where
  "in_unit (Num x) = (0 \<le> x \<and> x \<le> 1)"
| "in_unit _ = False"

text \<open>
  The value \<open>JSON.parse\<close> returns. An object keeps its members in the order of the text;
  a repeated key reads as its last occurrence.
\<close>

datatype json =
    JNull
  | JBool bool
  | JNum real
  | JStr jsstring
  | JArr "json list"
  | JObj "(jsstring \<times> json) list"

text \<open>
  A property read \<open>v.k\<close> on a parsed value that is not \<open>null\<close>; \<open>None\<close> is \<open>undefined\<close>.
  None of the keys this program reads is a built-in property of arrays, strings, numbers
  or booleans. Reading a property of \<open>null\<close> throws; the callers test for it first.
\<close>

fun get :: "json \<Rightarrow> jsstring \<Rightarrow> json option" where
  "get (JObj kvs) k = map_of (rev kvs) k"
| "get _ k = None"

fun truthy :: "json \<Rightarrow> bool" where
  "truthy JNull = False"
| "truthy (JBool b) = b"
| "truthy (JNum r) = (r \<noteq> 0)"
| "truthy (JStr s) = (s \<noteq> [])"
| "truthy (JArr _) = True"
| "truthy (JObj _) = True"

text \<open>\<open>x || d\<close> for a property read \<open>x\<close>.\<close>

definition js_or :: "json option \<Rightarrow> json \<Rightarrow> json" where
  "js_or x d = (case x of None \<Rightarrow> d | Some v \<Rightarrow> if truthy v then v else d)"

text \<open>
  The numeric coercion that \<open>Math.min\<close> and \<open>Math.max\<close> apply to an argument; \<open>None\<close>
  is a thrown \<open>TypeError\<close>. A parsed object converts through the inherited
  \<open>toString\<close> to \<open>NaN\<close>; if it has a member named \<open>toString\<close> of its own, which is
  never callable, the conversion throws. Strings and arrays convert through the runtime's
  string-to-number parser, which is not part of this program: it is the parameter \<open>rt\<close>.
\<close>

fun ToNumber :: "(json \<Rightarrow> jsnum option) \<Rightarrow> json \<Rightarrow> jsnum option" where
  "ToNumber rt JNull = Some (Num 0)"
| "ToNumber rt (JBool b) = Some (Num (if b then 1 else 0))"
| "ToNumber rt (JNum r) = Some (Num r)"
| "ToNumber rt (JObj kvs) = (if ascii ''toString'' \<in> fst ` set kvs then None else Some NaN)"
| "ToNumber rt v = rt v"

section \<open>Data model (types)\<close>

record Metrics =
  likes :: real
  retweets :: real
  replies :: real
  views :: "real option"

text \<open>
  \<open>createdAt\<close> is the time value of the \<open>Date\<close> in milliseconds; \<open>None\<close> is an invalid
  date, whose \<open>getTime()\<close> is \<open>NaN\<close>. The source's fields \<open>id\<close> and \<open>text\<close> are
  \<open>tweetId\<close> and \<open>tweetText\<close> here.
\<close>

record TwitterMessage =
  tweetId :: jsstring
  tweetText :: jsstring
  authorId :: jsstring
  authorUsername :: jsstring
  createdAt :: "int option"
  metrics :: Metrics
  hashtags :: "jsstring list"
  mentions :: "jsstring list"
  isReply :: bool
  parentTweetId :: "jsstring option"

record SentimentResult =
  score :: jsnum
  label :: json
  confidence :: jsnum

record ViralResult =
  vscore :: real
  factors :: "string list"

record TokenSuggestion =
  name :: json
  symbol :: jsstring
  concept :: json

text \<open>\<open>tokenSuggestion\<close>: \<open>None\<close> stands for both \<open>undefined\<close> and \<open>null\<close>.\<close>

record TrendAnalysis =
  trendKeywords :: json
  sentiment :: SentimentResult
  viralPotential :: ViralResult
  tokenSuggestion :: "TokenSuggestion option"

section \<open>The language-model collaborator\<close>

text \<open>
  Every request is one of the fixed prompts of the source with the values it interpolates.
  A call either fails (the client throws, \<open>choices[0]\<close> is missing, or \<open>JSON.parse\<close>
  throws on the content) or yields the parsed content; empty content parses as \<open>{}\<close>.
\<close>

datatype llm_request =
    SentimentPrompt jsstring
  | KeywordsPrompt jsstring
  | TokenPrompt jsstring jsstring real real
  | StructuredPrompt jsstring "jsstring list option" "Metrics option"

datatype llm_response = Failed | Parsed json

type_synonym llm = "llm_request \<Rightarrow> llm_response"

section \<open>SentimentAnalyzer\<close>

definition neutralSentiment :: SentimentResult where
  "neutralSentiment = \<lparr>score = Num 0.5, label = JStr (ascii ''neutral''), confidence = Num 0.1\<rparr>"

text \<open>\<open>Math.max(0, Math.min(1, v))\<close>.\<close>

definition clamp01 :: "jsnum \<Rightarrow> jsnum" where
  "clamp01 v = js_max (Num 0) (js_min (Num 1) v)"

text \<open>
  A \<open>TypeError\<close> of either coercion is caught like any other error of the \<open>try\<close> body.
\<close>

definition analyzeSentiment :: "(json \<Rightarrow> jsnum option) \<Rightarrow> llm \<Rightarrow> jsstring \<Rightarrow> SentimentResult" where
  "analyzeSentiment rt ask txt =
     (case ask (SentimentPrompt txt) of
        Failed \<Rightarrow> neutralSentiment
      | Parsed JNull \<Rightarrow> neutralSentiment
      | Parsed result \<Rightarrow>
          (case (ToNumber rt (js_or (get result (ascii ''score'')) (JNum 0.5)),
                 ToNumber rt (js_or (get result (ascii ''confidence'')) (JNum 0.5))) of
             (Some s, Some c) \<Rightarrow>
               \<lparr>score = clamp01 s,
                label = js_or (get result (ascii ''label'')) (JStr (ascii ''neutral'')),
                confidence = clamp01 c\<rparr>
           | _ \<Rightarrow> neutralSentiment))"

text \<open>
  The literal of \<open>emojiRegex\<close>, as it is written: an alternation of five character
  classes under the \<open>u\<close> flag, each class a list of atoms, and an atom a range of code
  points from its first to its last (a single character is the range from itself to
  itself). Six of the escapes of the literal have a doubled backslash; under the \<open>u\<close>
  flag \<open>\\\<close> is the escaped backslash, U+005C, and the \<open>u{...}\<close> after it is a run of
  single characters. So the classes are

    \<^item> \<open>\\ u { 1 F 6 0 0 }-\u{1F64F}\<close>: the backslash, seven characters, and the range
      from \<open>}\<close> (U+007D) to U+1F64F;
    \<^item> \<open>\u{1F300}-\\ u { 1 F 5 F F }\<close>: the range from U+1F300 to the backslash, and
      eight characters;
    \<^item> \<open>\\ u { 1 F 6 8 0 }-\\ u { 1 F 6 F F }\<close>: the backslash, seven characters, the
      range from \<open>}\<close> to the backslash, and eight characters;
    \<^item> \<open>\u{2600}-\u{26FF}\<close>;
    \<^item> \<open>\u{2700}-\\ u { 2 7 B F }\<close>: the range from U+2700 to the backslash, and
      seven characters.
\<close>

type_synonym class_range = "nat \<times> nat"

definition single :: "char \<Rightarrow> class_range" where
  "single c = (of_char c, of_char c)"

definition backslash :: class_range where
  "backslash = (0x5C, 0x5C)"

definition emojiRegexLiteral :: "class_range list list" where
  "emojiRegexLiteral =
     [backslash # map single ''u{1F600'' @ [(0x7D, 0x1F64F)],
      (0x1F300, 0x5C) # map single ''u{1F5FF}'',
      backslash # map single ''u{1F680'' @ [(0x7D, 0x5C)] @ map single ''u{1F6FF}'',
      [(0x2600, 0x26FF)],
      (0x2700, 0x5C) # map single ''u{27BF}'']"

text \<open>
  A range of a class is in order when its first code point is not above its last. A
  pattern with a range out of order is an early \<open>SyntaxError\<close>: the script that holds the
  literal is rejected when it is parsed, before any of its statements runs.
\<close>

definition rangeInOrder :: "class_range \<Rightarrow> bool" where
  "rangeInOrder r = (fst r \<le> snd r)"

definition classCompiles :: "class_range list \<Rightarrow> bool" where
  "classCompiles atoms = list_all rangeInOrder atoms"

definition patternCompiles :: "class_range list list \<Rightarrow> bool" where
  "patternCompiles classes = list_all classCompiles classes"

text \<open>
  The functions below are the module as it runs once the pattern is one that compiles.
  They do not fix which: the test \<open>emojiRegex.test(message.text)\<close> is the parameter
  \<open>emoji\<close>, a predicate of the text, and every property proved of them holds for each
  such predicate.
\<close>

definition memeKeywords :: "jsstring list" where
  "memeKeywords = map ascii
     [''lol'', ''lmao'', ''based'', ''chad'', ''gigachad'', ''sigma'', ''wagmi'', ''ngmi'',
      ''diamond hands'', ''paper hands'', ''moon'', ''lambo'', ''hodl'', ''ape'',
      ''degen'', ''gm'', ''gn'', ''fren'', ''pepe'', ''wojak'', ''cope'', ''seethe'']"

definition ctaKeywords :: "jsstring list" where
  "ctaKeywords = map ascii [''retweet'', ''share'', ''follow'', ''like'', ''comment'', ''join'']"

record ContentCharacteristics =
  hasEmojis :: bool
  hasHashtags :: bool
  hasMemeKeywords :: bool
  hasCallToAction :: bool
  isQuestion :: bool

definition analyzeContentCharacteristics ::
  "(jsstring \<Rightarrow> bool) \<Rightarrow> TwitterMessage \<Rightarrow> ContentCharacteristics" where
  "analyzeContentCharacteristics emoji message =
     (let text = toLowerCase (tweetText message) in
      \<lparr>hasEmojis = emoji (tweetText message),
       hasHashtags = (length (hashtags message) > 0),
       hasMemeKeywords = list_ex (\<lambda>keyword. str_includes text keyword) memeKeywords,
       hasCallToAction = list_ex (\<lambda>keyword. str_includes text keyword) ctaKeywords,
       isQuestion = str_includes (tweetText message) (ascii ''?'')\<rparr>)"

definition peakHours :: "nat list" where
  "peakHours = [6, 7, 8, 9, 12, 13, 19, 20, 21, 22]"

definition isInTrendingTime :: "nat \<Rightarrow> bool" where
  "isInTrendingTime hour = (hour \<in> set peakHours)"

definition totalEngagement :: "TwitterMessage \<Rightarrow> real" where
  "totalEngagement message =
     likes (metrics message) + retweets (metrics message) + replies (metrics message)"

text \<open>\<open>message.metrics.views ? totalEngagement / message.metrics.views : 0\<close>.\<close>

definition engagementRate :: "TwitterMessage \<Rightarrow> jsnum" where
  "engagementRate message =
     (case views (metrics message) of
        None \<Rightarrow> Num 0
      | Some v \<Rightarrow> if v \<noteq> 0 then js_div (totalEngagement message) v else Num 0)"

text \<open>
  The running pair of \<open>factors\<close> and \<open>score\<close>; \<open>fire\<close> is one
  \<open>factors.push(f); score += w\<close>.
\<close>

type_synonym tally = "string list \<times> real"

definition fire :: "string \<Rightarrow> real \<Rightarrow> tally \<Rightarrow> tally" where
  "fire f w t = (fst t @ [f], snd t + w)"

text \<open>The engagement and content factors, in the order of the source.\<close>

definition engagementAndContent :: "(jsstring \<Rightarrow> bool) \<Rightarrow> TwitterMessage \<Rightarrow> tally" where
  "engagementAndContent emoji message =
     (let contentAnalysis = analyzeContentCharacteristics emoji message;
          t0 = ([], 0);
          t1 = (if likes (metrics message) > 100 then fire ''High like count'' 0.3 t0
                else if likes (metrics message) > 10 then fire ''Moderate engagement'' 0.1 t0
                else t0);
          t2 = (if retweets (metrics message) > 20 then fire ''Strong retweet activity'' 0.2 t1 else t1);
          t3 = (if js_gt (engagementRate message) (Num 0.05) then fire ''High engagement rate'' 0.15 t2 else t2);
          t4 = (if hasEmojis contentAnalysis then fire ''Contains emojis'' 0.1 t3 else t3);
          t5 = (if hasHashtags contentAnalysis then fire ''Uses trending hashtags'' 0.15 t4 else t4);
          t6 = (if hasMemeKeywords contentAnalysis then fire ''Contains meme language'' 0.15 t5 else t5)
      in t6)"

text \<open>
  \<open>hoursSincePost < 2\<close>, with \<open>now\<close> the reading of \<open>Date.now()\<close>; the comparison is
  false for an invalid date.
\<close>

definition postedWithinTwoHours :: "int \<Rightarrow> TwitterMessage \<Rightarrow> bool" where
  "postedWithinTwoHours now message =
     (case createdAt message of
        None \<Rightarrow> False
      | Some c \<Rightarrow> real_of_int (now - c) / (1000 * 60 * 60) < 2)"

text \<open>
  \<open>now\<close> is the reading of \<open>Date.now()\<close> and \<open>hour\<close> that of \<open>new Date().getHours()\<close>.
  No operation of the \<open>try\<close> body throws on a message of the type above, so the
  \<open>catch\<close> branch (score 0.3, factor \<open>Analysis error\<close>) has no path to it.
\<close>

definition analyzeViralPotential ::
  "(jsstring \<Rightarrow> bool) \<Rightarrow> int \<Rightarrow> nat \<Rightarrow> TwitterMessage \<Rightarrow> ViralResult" where
  "analyzeViralPotential emoji now hour message =
     (let t6 = engagementAndContent emoji message;
          t7 = (if postedWithinTwoHours now message \<and> totalEngagement message > 50
                then fire ''Rapid early engagement'' 0.2 t6 else t6);
          t8 = (if isInTrendingTime hour then fire ''Posted during peak hours'' 0.1 t7 else t7)
      in \<lparr>vscore = min 1 (max 0 (snd t8)), factors = fst t8\<rparr>)"

definition extractKeywords :: "llm \<Rightarrow> jsstring \<Rightarrow> json" where
  "extractKeywords ask txt =
     (case ask (KeywordsPrompt txt) of
        Failed \<Rightarrow> JArr []
      | Parsed JNull \<Rightarrow> JArr []
      | Parsed result \<Rightarrow> js_or (get result (ascii ''keywords'')) (JArr []))"

definition tokenPrompt :: "TwitterMessage \<Rightarrow> llm_request" where
  "tokenPrompt message =
     TokenPrompt (tweetText message) (authorUsername message)
       (likes (metrics message)) (retweets (metrics message))"

text \<open>
  \<open>result.symbol.toUpperCase()\<close> throws unless the symbol is a string; the \<open>catch\<close>
  turns that into \<open>null\<close>.
\<close>

definition generateTokenSuggestion :: "llm \<Rightarrow> TwitterMessage \<Rightarrow> TokenSuggestion option" where
  "generateTokenSuggestion ask message =
     (case ask (tokenPrompt message) of
        Failed \<Rightarrow> None
      | Parsed JNull \<Rightarrow> None
      | Parsed result \<Rightarrow>
          (case (get result (ascii ''name''), get result (ascii ''symbol''), get result (ascii ''concept'')) of
             (Some n, Some s, Some c) \<Rightarrow>
               if truthy n \<and> truthy s \<and> truthy c
               then (case s of
                       JStr str \<Rightarrow> Some \<lparr>name = n, symbol = toUpperCase str, concept = c\<rparr>
                     | _ \<Rightarrow> None)
               else None
           | _ \<Rightarrow> None))"

text \<open>The gate of \<open>analyzeTrend\<close> for asking for a token suggestion.\<close>

definition suggestionGate :: "SentimentResult \<Rightarrow> ViralResult \<Rightarrow> bool" where
  "suggestionGate sentimentResult viralResult =
     (js_gt (score sentimentResult) (Num 0.6) \<and> vscore viralResult > 0.5)"

text \<open>
  \<open>analyzeTrend\<close> returns the analysis together with the requests it sent to the language
  model, in order. The three analysers catch their own errors, so the outer \<open>catch\<close>
  has no path to it.
\<close>

definition analyzeTrend ::
  "(json \<Rightarrow> jsnum option) \<Rightarrow> (jsstring \<Rightarrow> bool) \<Rightarrow> llm \<Rightarrow> int \<Rightarrow> nat \<Rightarrow> TwitterMessage
     \<Rightarrow> TrendAnalysis \<times> llm_request list" where
  "analyzeTrend rt emoji ask now hour message =
     (let sentimentResult = analyzeSentiment rt ask (tweetText message);
          viralResult = analyzeViralPotential emoji now hour message;
          kws = extractKeywords ask (tweetText message);
          gate = suggestionGate sentimentResult viralResult
      in (\<lparr>trendKeywords = kws, sentiment = sentimentResult, viralPotential = viralResult,
           tokenSuggestion = (if gate then generateTokenSuggestion ask message else None)\<rparr>,
          [SentimentPrompt (tweetText message), KeywordsPrompt (tweetText message)] @
          (if gate then [tokenPrompt message] else [])))"

section \<open>ElizaAgent\<close>

text \<open>
  The argument of \<open>processMessage\<close>; an absent \<open>context\<close> is the record with every
  optional field \<open>None\<close>.
\<close>

record MessageContext =
  contextText :: jsstring
  platform :: "jsstring option"
  author :: "jsstring option"
  contextMetrics :: "Metrics option"
  contextHashtags :: "jsstring list option"
  trendAnalysis :: "TrendAnalysis option"

text \<open>The three action fields after their \<open>|| false\<close>.\<close>

record Actions =
  createToken :: json
  replyToTweet :: json
  analyzeMore :: json

record StructuredAnalysis =
  saConfidence :: jsnum
  saMood :: json
  saTopics :: json
  saActions :: Actions

text \<open>
  \<open>ElizaResponse\<close>; the constant \<open>context.personality\<close> (the character's name) is left
  out. \<open>actions\<close> is absent in the response of the \<open>catch\<close> branch.
\<close>

record ElizaResponse =
  responseText :: jsstring
  responseConfidence :: jsnum
  mood :: json
  topics :: json
  actions :: "Actions option"

text \<open>
  The Eliza runtime is external: \<open>processActions\<close> throws (also when the runtime was
  never initialised, or its response is \<open>undefined\<close>), or replies with an optional text.
\<close>

datatype runtime_response = RuntimeThrows | RuntimeReply "jsstring option"

text \<open>\<open>v?.k\<close> on a property read \<open>v\<close>.\<close>

definition opt_get :: "json option \<Rightarrow> jsstring \<Rightarrow> json option" where
  "opt_get x k = (case x of None \<Rightarrow> None | Some JNull \<Rightarrow> None | Some v \<Rightarrow> get v k)"

definition structuredPrompt :: "MessageContext \<Rightarrow> llm_request" where
  "structuredPrompt message =
     StructuredPrompt (contextText message) (contextHashtags message) (contextMetrics message)"

definition defaultStructuredAnalysis :: StructuredAnalysis where
  "defaultStructuredAnalysis =
     \<lparr>saConfidence = Num 0.5, saMood = JStr (ascii ''neutral''), saTopics = JArr [],
      saActions = \<lparr>createToken = JBool False, replyToTweet = JBool True, analyzeMore = JBool False\<rparr>\<rparr>"

definition getStructuredAnalysis ::
  "(json \<Rightarrow> jsnum option) \<Rightarrow> llm \<Rightarrow> MessageContext \<Rightarrow> StructuredAnalysis" where
  "getStructuredAnalysis rt ask message =
     (case ask (structuredPrompt message) of
        Failed \<Rightarrow> defaultStructuredAnalysis
      | Parsed JNull \<Rightarrow> defaultStructuredAnalysis
      | Parsed analysis \<Rightarrow>
          (case ToNumber rt (js_or (get analysis (ascii ''confidence'')) (JNum 0.5)) of
             None \<Rightarrow> defaultStructuredAnalysis
           | Some c \<Rightarrow>
               \<lparr>saConfidence = clamp01 c,
                saMood = js_or (get analysis (ascii ''mood'')) (JStr (ascii ''neutral'')),
                saTopics = js_or (get analysis (ascii ''topics'')) (JArr []),
                saActions =
                  \<lparr>createToken = js_or (opt_get (get analysis (ascii ''actions'')) (ascii ''createToken'')) (JBool False),
                   replyToTweet = js_or (opt_get (get analysis (ascii ''actions'')) (ascii ''replyToTweet'')) (JBool False),
                   analyzeMore = js_or (opt_get (get analysis (ascii ''actions'')) (ascii ''analyzeMore'')) (JBool False)\<rparr>\<rparr>))"

text \<open>The two fixed reply texts; the second ends with an emoji.\<close>

definition interestingContent :: jsstring where
  "interestingContent = ascii ''Interesting content! Let me analyze this further.''"

definition somethingWentWrong :: jsstring where
  "somethingWentWrong =
     ascii ''Hmm, something went wrong with my analysis. Let me try again! '' @ [0xD83E, 0xDD14]"

text \<open>A call to a collaborator of the decision pipeline.\<close>

datatype collaborator_call = LanguageModel llm_request | ElizaRuntime MessageContext

definition processMessage ::
  "(json \<Rightarrow> jsnum option) \<Rightarrow> llm \<Rightarrow> (MessageContext \<Rightarrow> runtime_response) \<Rightarrow> MessageContext
     \<Rightarrow> ElizaResponse \<times> collaborator_call list" where
  "processMessage rt ask runtime message =
     (case runtime message of
        RuntimeThrows \<Rightarrow>
          (\<lparr>responseText = somethingWentWrong, responseConfidence = Num 0.1,
            mood = JStr (ascii ''confused''), topics = JArr [], actions = None\<rparr>,
           [ElizaRuntime message])
      | RuntimeReply t \<Rightarrow>
          (let structuredAnalysis = getStructuredAnalysis rt ask message in
           (\<lparr>responseText = (case t of None \<Rightarrow> interestingContent
                                | Some s \<Rightarrow> if s \<noteq> [] then s else interestingContent),
             responseConfidence = saConfidence structuredAnalysis,
             mood = saMood structuredAnalysis,
             topics = saTopics structuredAnalysis,
             actions = Some (saActions structuredAnalysis)\<rparr>,
            [ElizaRuntime message, LanguageModel (structuredPrompt message)])))"

section \<open>ElizaSolanaSDK\<close>

text \<open>
  \<open>MemeCoinData\<close>, with the fields of \<open>metadata\<close> inlined. Its name and description are
  strings by declaration, but the value that \<open>processTwitterMessage\<close> builds carries
  whatever JSON value the language model gave, unchecked; the record is parametric in
  their type.
\<close>

record 'a MemeCoinData =
  coinName :: 'a
  coinSymbol :: jsstring
  description :: 'a
  imageUrl :: "jsstring option"
  twitterContext :: TwitterMessage
  sentimentScore :: jsnum
  viralScore :: real
  createdBy :: jsstring
  inspiration :: jsstring

text \<open>
  The \<open>reasoning\<close> string: a fixed text, the template with its two numbers, or
  \<open>Error:\<close> followed by the message of the error that was caught.
\<close>

datatype reasoning = AlreadyProcessed | AIConfidenceSentiment jsnum jsnum | ErrorCaught

record AIAnalysis =
  shouldReply :: json
  shouldCreateToken :: json
  replyContent :: "jsstring option"
  tokenConcept :: "json MemeCoinData option"
  analysisConfidence :: jsnum
  reasoning :: reasoning

text \<open>What one run of the pipeline reads from the outside world.\<close>

record World =
  wAsk :: llm
  wRuntime :: "MessageContext \<Rightarrow> runtime_response"
  wNow :: int
  wHour :: nat

definition alreadyProcessed :: AIAnalysis where
  "alreadyProcessed =
     \<lparr>shouldReply = JBool False, shouldCreateToken = JBool False, replyContent = None,
      tokenConcept = None, analysisConfidence = Num 0, reasoning = AlreadyProcessed\<rparr>"

definition twitterPlatform :: jsstring where
  "twitterPlatform = ascii ''twitter''"

text \<open>The value that the \<open>catch\<close> branch returns.\<close>

definition errorAnalysis :: AIAnalysis where
  "errorAnalysis =
     \<lparr>shouldReply = JBool False, shouldCreateToken = JBool False, replyContent = None,
      tokenConcept = None, analysisConfidence = Num 0, reasoning = ErrorCaught\<rparr>"

text \<open>
  \<open>ToString\<close>, as a template literal applies it, throws a \<open>TypeError\<close> for an object
  that has a member named \<open>toString\<close> of its own (a JSON value is not callable), and for
  an array one of whose elements it throws for; \<open>null\<close> elements are skipped by the
  array's \<open>join\<close>.
\<close>

fun toStringThrows :: "json \<Rightarrow> bool" where
  "toStringThrows (JObj kvs) = (ascii ''toString'' \<in> fst ` set kvs)"
| "toStringThrows (JArr xs) = (\<exists>x \<in> set xs. toStringThrows x)"
| "toStringThrows v = False"

text \<open>
  The body of \<open>processTwitterMessage\<close> falls into two parts. The test
  \<open>this.processedTweets.has(message.id)\<close> runs when the function is called. The \<open>try\<close>
  block then awaits \<open>analyzeTrend\<close> and \<open>processMessage\<close>, and only after both it runs,
  with no further \<open>await\<close>, from the construction of the analysis to the \<open>return\<close>; other
  calls can run while it waits.

  \<open>tryBlock\<close> is the \<open>try\<close> block with its \<open>catch\<close>, on the set \<open>processedTweets\<close> as it
  is when the second \<open>await\<close> has returned: the analysis, the set after the block, and the
  collaborator calls made, in order. \<open>username\<close> is \<open>config.twitter.username\<close>. Before the
  \<open>add\<close> nothing in the block throws: \<open>analyzeTrend\<close> and \<open>processMessage\<close> catch their own
  errors, the logger does not throw, the two numbers of the \<open>reasoning\<close> template are
  numbers, and the rest reads properties of objects that are always there. After the
  \<open>add\<close> the template literal of the last log line applies \<open>ToString\<close> to
  \<open>analysis.shouldReply\<close> and \<open>analysis.shouldCreateToken\<close>, which are whatever JSON the
  language model gave; when that throws, the \<open>catch\<close> branch returns, with the id
  already in the set.
\<close>

definition tryBlock ::
  "jsstring \<Rightarrow> (json \<Rightarrow> jsnum option) \<Rightarrow> (jsstring \<Rightarrow> bool) \<Rightarrow> World \<Rightarrow> jsstring set \<Rightarrow> TwitterMessage
     \<Rightarrow> AIAnalysis \<times> jsstring set \<times> collaborator_call list" where
  "tryBlock username rt emoji w processedTweets message =
     (let (trend, calls1) = analyzeTrend rt emoji (wAsk w) (wNow w) (wHour w) message;
          (elizaResponse, calls2) =
            processMessage rt (wAsk w) (wRuntime w)
              \<lparr>contextText = tweetText message, platform = Some twitterPlatform,
               author = Some (authorUsername message), contextMetrics = Some (metrics message),
               contextHashtags = Some (hashtags message), trendAnalysis = Some trend\<rparr>;
          reply = js_or (map_option replyToTweet (actions elizaResponse)) (JBool False);
          create = js_or (map_option createToken (actions elizaResponse)) (JBool False);
          analysis =
            \<lparr>shouldReply = reply, shouldCreateToken = create,
             replyContent = Some (responseText elizaResponse),
             tokenConcept =
               (case tokenSuggestion trend of
                  None \<Rightarrow> None
                | Some suggestion \<Rightarrow>
                    if truthy create
                    then Some \<lparr>coinName = name suggestion, coinSymbol = symbol suggestion,
                               description = concept suggestion, imageUrl = None,
                               twitterContext = message,
                               sentimentScore = score (sentiment trend),
                               viralScore = vscore (viralPotential trend),
                               createdBy = username, inspiration = tweetText message\<rparr>
                    else None),
             analysisConfidence = responseConfidence elizaResponse,
             reasoning = AIConfidenceSentiment (responseConfidence elizaResponse) (score (sentiment trend))\<rparr>;
          added = insert (tweetId message) processedTweets
      in if toStringThrows reply \<or> toStringThrows create
         then (errorAnalysis, added, map LanguageModel calls1 @ calls2)
         else (analysis, added, map LanguageModel calls1 @ calls2))"

text \<open>
  A call of \<open>processTwitterMessage\<close> during which no other call runs: the test and the
  \<open>try\<close> block see the same set.
\<close>

definition processTwitterMessage ::
  "jsstring \<Rightarrow> (json \<Rightarrow> jsnum option) \<Rightarrow> (jsstring \<Rightarrow> bool) \<Rightarrow> World \<Rightarrow> jsstring set \<Rightarrow> TwitterMessage
     \<Rightarrow> AIAnalysis \<times> jsstring set \<times> collaborator_call list" where
  "processTwitterMessage username rt emoji w processedTweets message =
     (if tweetId message \<in> processedTweets then (alreadyProcessed, processedTweets, [])
      else tryBlock username rt emoji w processedTweets message)"

text \<open>
  Calls that may overlap, as the monitors of \<open>TwitterBot\<close> start them (a callback for each
  tweet of a batch, none awaited). A run is a list of events on the set and the list of
  calls that have passed the test and are waiting:

    \<^item> \<open>Called message\<close>: a call starts and tests the set; it returns at once if the id
      is there and waits otherwise;
    \<^item> \<open>Resumed w message\<close>: a waiting call of this message, whose collaborators
      answered as \<open>w\<close> says, runs its \<open>try\<close> block on the set as it now is, and returns.
      The event is skipped when no such call is waiting.

  \<open>runCalls\<close> gives the returned analyses with their collaborator calls, in the order of
  return, and the set and the waiting calls at the end.
\<close>

datatype call_event = Called TwitterMessage | Resumed World TwitterMessage

fun runCalls ::
  "jsstring \<Rightarrow> (json \<Rightarrow> jsnum option) \<Rightarrow> (jsstring \<Rightarrow> bool) \<Rightarrow> call_event list
     \<Rightarrow> jsstring set \<times> TwitterMessage list
     \<Rightarrow> (AIAnalysis \<times> collaborator_call list) list \<times> jsstring set \<times> TwitterMessage list" where
  "runCalls username rt emoji [] (processedTweets, waiting) = ([], processedTweets, waiting)"
| "runCalls username rt emoji (Called message # events) (processedTweets, waiting) =
     (if tweetId message \<in> processedTweets
      then (case runCalls username rt emoji events (processedTweets, waiting) of
              (returned, final) \<Rightarrow> ((alreadyProcessed, []) # returned, final))
      else runCalls username rt emoji events (processedTweets, message # waiting))"
| "runCalls username rt emoji (Resumed w message # events) (processedTweets, waiting) =
     (if message \<in> set waiting
      then (case tryBlock username rt emoji w processedTweets message of
              (analysis, added, calls) \<Rightarrow>
                (case runCalls username rt emoji events (added, remove1 message waiting) of
                   (returned, final) \<Rightarrow> ((analysis, calls) # returned, final)))
      else runCalls username rt emoji events (processedTweets, waiting))"

section \<open>TwitterBot and MessageReplyHandler\<close>

text \<open>A thrown \<open>Error\<close> with its message.\<close>

datatype js_error = Error string

record ReplyResult =
  success :: bool
  replyId :: "jsstring option"
  content :: jsstring
  error :: "string option"

text \<open>
  The platform client's \<open>v2.reply(content, id)\<close>: it throws, or answers with the id of
  the reply.
\<close>

datatype platform_response = PlatformThrows string | PlatformReplied jsstring

text \<open>
  \<open>TwitterBot.replyToTweet\<close>; \<open>client\<close> tells whether the client was initialised.
  Without a client the method throws before its \<open>try\<close>.
\<close>

definition botReplyToTweet ::
  "bool \<Rightarrow> (jsstring \<Rightarrow> jsstring \<Rightarrow> platform_response) \<Rightarrow> TwitterMessage \<Rightarrow> jsstring
     \<Rightarrow> js_error + ReplyResult" where
  "botReplyToTweet client v2reply originalTweet replyText =
     (if \<not> client then Inl (Error ''Twitter client not initialized'')
      else (case v2reply replyText (tweetId originalTweet) of
              PlatformReplied rid \<Rightarrow>
                Inr \<lparr>success = True, replyId = Some rid, content = replyText, error = None\<rparr>
            | PlatformThrows msg \<Rightarrow>
                Inr \<lparr>success = False, replyId = None, content = replyText, error = Some msg\<rparr>))"

text \<open>The mutable fields of \<open>MessageReplyHandler\<close>; times are in milliseconds.\<close>

record ReplyTracking =
  replyHistory :: "jsstring \<rightharpoonup> int"
  hourlyReplyCount :: nat
  lastHourReset :: int

definition oneHour :: int where
  "oneHour = 60 * 60 * 1000"

text \<open>Each function takes the reading of \<open>Date.now()\<close> it makes as an argument.\<close>

definition resetHourlyCounter :: "int \<Rightarrow> ReplyTracking \<Rightarrow> ReplyTracking" where
  "resetHourlyCounter tNow s = s\<lparr>hourlyReplyCount := 0, lastHourReset := tNow\<rparr>"

text \<open>
  \<open>canReply\<close> reads the clock at \<open>tCheck\<close>, and the reset it may run reads it again at
  \<open>tReset\<close>. It returns its answer and the tracking state it leaves.
\<close>

definition canReply :: "real \<Rightarrow> int \<Rightarrow> int \<Rightarrow> ReplyTracking \<Rightarrow> bool \<times> ReplyTracking" where
  "canReply maxRepliesPerHour tCheck tReset s =
     (let s' = (if tCheck - lastHourReset s > oneHour then resetHourlyCounter tReset s else s)
      in (real (hourlyReplyCount s') < maxRepliesPerHour, s'))"

text \<open>\<open>!lastReply\<close> holds for a missing entry and for the time stamp 0.\<close>

definition hasRecentReply :: "int \<Rightarrow> jsstring \<Rightarrow> ReplyTracking \<Rightarrow> bool" where
  "hasRecentReply tNow userId s =
     (case replyHistory s userId of
        None \<Rightarrow> False
      | Some lastReply \<Rightarrow> if lastReply = 0 then False else tNow - lastReply < oneHour)"

definition updateReplyTracking :: "int \<Rightarrow> jsstring \<Rightarrow> ReplyTracking \<Rightarrow> ReplyTracking" where
  "updateReplyTracking tNow userId s =
     s\<lparr>replyHistory := (replyHistory s)(userId \<mapsto> tNow), hourlyReplyCount := hourlyReplyCount s + 1\<rparr>"

text \<open>The first step of \<open>formatReply\<close>: add the mention if the content lacks it.\<close>

definition withMention :: "TwitterMessage \<Rightarrow> jsstring \<Rightarrow> jsstring" where
  "withMention message replyText =
     (if \<not> str_includes replyText (ascii ''@'' @ authorUsername message)
      then ascii ''@'' @ authorUsername message @ ascii '' '' @ replyText
      else replyText)"

definition formatReply :: "TwitterMessage \<Rightarrow> jsstring \<Rightarrow> jsstring" where
  "formatReply message replyText =
     (let reply = withMention message replyText
      in if length reply > 280 then take 277 reply @ ascii ''...'' else reply)"

text \<open>The four clock readings of one \<open>replyToTweet\<close>, in the order they are made.\<close>

record ReplyClock =
  tCanReply :: int
  tReset :: int
  tRecent :: int
  tRecord :: int

text \<open>
  \<open>MessageReplyHandler.replyToTweet\<close>, with the bot's \<open>replyToTweet\<close> as the parameter
  \<open>dispatch\<close>: it either throws or returns a result. The function returns its result, the
  tracking state it leaves and the replies it handed to \<open>dispatch\<close>. Every path runs
  \<open>canReply\<close> first, so every path leaves the state \<open>canReply\<close> leaves, changed further
  only by \<open>updateReplyTracking\<close>.
\<close>

definition replyToTweet_handler ::
  "real \<Rightarrow> (TwitterMessage \<Rightarrow> jsstring \<Rightarrow> js_error + ReplyResult) \<Rightarrow> ReplyClock \<Rightarrow> ReplyTracking
     \<Rightarrow> TwitterMessage \<Rightarrow> jsstring \<Rightarrow> ReplyResult \<times> ReplyTracking \<times> jsstring list" where
  "replyToTweet_handler maxRepliesPerHour dispatch clock s message replyText =
     (let (allowed, s1) = canReply maxRepliesPerHour (tCanReply clock) (tReset clock) s in
      if \<not> allowed
      then (\<lparr>success = False, replyId = None, content = replyText, error = Some ''Rate limit exceeded''\<rparr>,
            s1, [])
      else if hasRecentReply (tRecent clock) (authorId message) s1
      then (\<lparr>success = False, replyId = None, content = replyText, error = Some ''Recent reply to this user''\<rparr>,
            s1, [])
      else
        (let formattedReply = formatReply message replyText in
         case dispatch message formattedReply of
           Inl (Error msg) \<Rightarrow>
             (\<lparr>success = False, replyId = None, content = replyText, error = Some msg\<rparr>,
              s1, [formattedReply])
         | Inr result \<Rightarrow>
             (result,
              if success result then updateReplyTracking (tRecord clock) (authorId message) s1 else s1,
              [formattedReply])))"

text \<open>
  The check of \<open>validateConfig\<close> on \<open>config.twitter.maxRepliesPerHour\<close>: the SDK's
  constructor throws unless it holds.
\<close>

definition validMaxReplies :: "real \<Rightarrow> bool" where
  "validMaxReplies n = (\<not> (n < 1 \<or> n > 100))"

text \<open>Recording a run of replies, each with its time and author.\<close>

fun recordReplies :: "(int \<times> jsstring) list \<Rightarrow> ReplyTracking \<Rightarrow> ReplyTracking" where
  "recordReplies [] s = s"
| "recordReplies ((t, userId) # rest) s = recordReplies rest (updateReplyTracking t userId s)"

section \<open>MemeCoinCreator\<close>

text \<open>
  The error strings of token creation; a template is kept with its values. In
  \<open>TokenCreationResult\<close> the source's fields \<open>success\<close> and \<open>error\<close> are \<open>created\<close> and
  \<open>creationError\<close> here.
\<close>

datatype creation_error =
    SentimentTooLow jsnum real
  | NameLength
  | SymbolFormat
  | BannedContent jsstring
  | Message string

record TokenCreationResult =
  created :: bool
  tokenAddress :: "jsstring option"
  transactionId :: "jsstring option"
  bondingCurveAddress :: "jsstring option"
  creationError :: "creation_error option"

definition bannedWords :: "jsstring list" where
  "bannedWords = map ascii [''scam'', ''rug'', ''hack'', ''steal'']"

text \<open>\<open>/^[A-Z]{3,6}$/.test(symbol)\<close>.\<close>

definition symbolRegex :: "jsstring \<Rightarrow> bool" where
  "symbolRegex s = (3 \<le> length s \<and> length s \<le> 6 \<and> list_all (\<lambda>c. 65 \<le> c \<and> c \<le> 90) s)"

text \<open>The text searched for banned words.\<close>

definition bannedContent :: "jsstring MemeCoinData \<Rightarrow> jsstring" where
  "bannedContent data =
     toLowerCase (coinName data @ ascii '' '' @ description data @ ascii '' '' @
                  tweetText (twitterContext data))"

text \<open>\<open>validateMemeCoinData\<close>: \<open>None\<close> is \<open>{isValid: true}\<close>, otherwise the error.\<close>

definition validateMemeCoinData :: "real \<Rightarrow> jsstring MemeCoinData \<Rightarrow> creation_error option" where
  "validateMemeCoinData minSentimentScore data =
     (if js_lt (sentimentScore data) (Num minSentimentScore)
      then Some (SentimentTooLow (sentimentScore data) minSentimentScore)
      else if length (coinName data) < 3 \<or> length (coinName data) > 32 then Some NameLength
      else if \<not> symbolRegex (coinSymbol data) then Some SymbolFormat
      else map_option BannedContent (find (\<lambda>word. str_includes (bannedContent data) word) bannedWords))"

text \<open>
  \<open>createToken\<close>, with the mint collaborator (\<open>createTokenWithBondingCurve\<close>) as the
  parameter \<open>mint\<close>. Sanitising the concept and building the metadata URI and the token
  parameters prepare the collaborator's argument and do not fail; the request is named by
  the concept it is built from. The function returns its result and the requests it
  sent to the collaborator.
\<close>

definition createToken ::
  "real \<Rightarrow> (jsstring MemeCoinData \<Rightarrow> js_error + TokenCreationResult) \<Rightarrow> jsstring MemeCoinData
     \<Rightarrow> TokenCreationResult \<times> jsstring MemeCoinData list" where
  "createToken minSentimentScore mint memeCoinData =
     (case validateMemeCoinData minSentimentScore memeCoinData of
        Some e \<Rightarrow>
          (\<lparr>created = False, tokenAddress = None, transactionId = None,
            bondingCurveAddress = None, creationError = Some e\<rparr>, [])
      | None \<Rightarrow>
          (case mint memeCoinData of
             Inl (Error msg) \<Rightarrow>
               (\<lparr>created = False, tokenAddress = None, transactionId = None,
                 bondingCurveAddress = None, creationError = Some (Message msg)\<rparr>, [memeCoinData])
           | Inr result \<Rightarrow> (result, [memeCoinData])))"

section \<open>Predicates of the properties and example inputs\<close>

text \<open>A property read is falsy: \<open>undefined\<close>, \<open>null\<close>, \<open>false\<close>, \<open>0\<close> or the empty string.\<close>

definition falsy :: "json option \<Rightarrow> bool" where
  "falsy x = (case x of None \<Rightarrow> True | Some v \<Rightarrow> \<not> truthy v)"

text \<open>A property read is a JSON number, or falsy.\<close>

definition numberOrFalsy :: "json option \<Rightarrow> bool" where
  "numberOrFalsy x = (case x of Some (JNum r) \<Rightarrow> True | _ \<Rightarrow> falsy x)"

text \<open>A language model that gives one response to every request.\<close>

definition llmAlways :: "llm_response \<Rightarrow> llm" where
  "llmAlways r q = r"

text \<open>
  A stand-in for the runtime's string-to-number parser in the examples, none of which
  reads a string or an array as a number.
\<close>

definition rtExample :: "json \<Rightarrow> jsnum option" where
  "rtExample v = Some NaN"

text \<open>A language model that answers every prompt the way the prompt asks.\<close>

definition bullishLLM :: llm where
  "bullishLLM q =
     (case q of
        SentimentPrompt _ \<Rightarrow>
          Parsed (JObj [(ascii ''score'', JNum 0.9), (ascii ''label'', JStr (ascii ''positive'')),
                        (ascii ''confidence'', JNum 0.8)])
      | KeywordsPrompt _ \<Rightarrow> Parsed (JObj [(ascii ''keywords'', JArr [JStr (ascii ''wagmi'')])])
      | TokenPrompt _ _ _ _ \<Rightarrow>
          Parsed (JObj [(ascii ''name'', JStr (ascii ''Diamond Hands'')),
                        (ascii ''symbol'', JStr (ascii ''wagmi'')),
                        (ascii ''concept'', JStr (ascii ''Holders who never sell''))])
      | StructuredPrompt _ _ _ \<Rightarrow>
          Parsed (JObj [(ascii ''confidence'', JNum 0.9),
                        (ascii ''actions'', JObj [(ascii ''createToken'', JBool True),
                                                  (ascii ''replyToTweet'', JBool True)])]))"

definition runtimeReplies :: "MessageContext \<Rightarrow> runtime_response" where
  "runtimeReplies message = RuntimeReply (Some (ascii ''WAGMI indeed!''))"

definition runtimeDown :: "MessageContext \<Rightarrow> runtime_response" where
  "runtimeDown message = RuntimeThrows"

definition bullishWorld :: World where
  "bullishWorld = \<lparr>wAsk = bullishLLM, wRuntime = runtimeReplies, wNow = 0, wHour = 3\<rparr>"

definition outageWorld :: World where
  "outageWorld = \<lparr>wAsk = llmAlways Failed, wRuntime = runtimeDown, wNow = 5000, wHour = 3\<rparr>"

text \<open>
  Two stand-ins for the emoji test in the examples: one that matches no text and one
  that matches every text.
\<close>

definition emojiNever :: "jsstring \<Rightarrow> bool" where
  "emojiNever s = False"

definition emojiAlways :: "jsstring \<Rightarrow> bool" where
  "emojiAlways s = True"

text \<open>
  The message of the scenario: the text ends with the two emoji U+1F48E and U+1F64C, each
  a surrogate pair, and the hashtag.
\<close>

definition diamondHandsText :: jsstring where
  "diamondHandsText =
     ascii ''Diamond hands forever! '' @ [0xD83D, 0xDC8E, 0xD83D, 0xDE4C] @ ascii '' #WAGMI''"

definition scenarioTweet :: TwitterMessage where
  "scenarioTweet =
     \<lparr>tweetId = ascii ''1234567890'', tweetText = diamondHandsText,
      authorId = ascii ''user123'', authorUsername = ascii ''cryptoenthusiast'',
      createdAt = Some 0,
      metrics = \<lparr>likes = 150, retweets = 45, replies = 23, views = Some 2500\<rparr>,
      hashtags = [ascii ''WAGMI''], mentions = [], isReply = False, parentTweetId = None\<rparr>"

definition noViewsTweet :: TwitterMessage where
  "noViewsTweet =
     scenarioTweet\<lparr>metrics := \<lparr>likes = 150, retweets = 45, replies = 23, views = None\<rparr>\<rparr>"

text \<open>
  A tracking state whose window began at time 1000, with one reply recorded in it, and
  the clock of a call that starts just after that window's hour has passed.
\<close>

definition staleTracking :: ReplyTracking where
  "staleTracking =
     \<lparr>replyHistory = [ascii ''alice'' \<mapsto> 2000], hourlyReplyCount = 1, lastHourReset = 1000\<rparr>"

definition lateClock :: ReplyClock where
  "lateClock = \<lparr>tCanReply = 3601001, tReset = 3601001, tRecent = 3601001, tRecord = 3601500\<rparr>"

definition earlyClock :: ReplyClock where
  "earlyClock = \<lparr>tCanReply = 5000, tReset = 5000, tRecent = 5000, tRecord = 5600\<rparr>"

definition freshTracking :: ReplyTracking where
  "freshTracking = \<lparr>replyHistory = Map.empty, hourlyReplyCount = 0, lastHourReset = 0\<rparr>"

definition platformDown :: "jsstring \<Rightarrow> jsstring \<Rightarrow> platform_response" where
  "platformDown replyText originalId = PlatformThrows ''Service Unavailable''"

definition platformUp :: "jsstring \<Rightarrow> jsstring \<Rightarrow> platform_response" where
  "platformUp replyText originalId = PlatformReplied (ascii ''987'')"

text \<open>A reply of 300 code units.\<close>

definition longReply :: jsstring where
  "longReply = replicate 300 (of_char CHR ''a'')"





section \<open>Properties of the sentiment analysis\<close>

lemma clamp01_Num: "clamp01 (Num r) = Num (max 0 (min 1 r))"
  by (auto simp: clamp01_def js_min_def js_max_def max_def min_def)

lemma in_unit_clamp01: "v \<noteq> NaN \<Longrightarrow> in_unit (clamp01 v)"
  by (cases v) (auto simp: clamp01_def js_min_def js_max_def)

lemma coerce_falsy: "falsy x \<Longrightarrow> ToNumber rt (js_or x (JNum 0.5)) = Some (Num 0.5)"
  by (auto simp: falsy_def js_or_def split: option.splits)

lemma coerce_numberOrFalsy:
  assumes "numberOrFalsy x"
  shows "\<exists>r. ToNumber rt (js_or x (JNum 0.5)) = Some (Num r)"
proof (cases "falsy x")
  case True
  then show ?thesis using coerce_falsy [of x rt] by blast
next
  case False
  with assms obtain r where "x = Some (JNum r)" "r \<noteq> 0"
    by (auto simp: numberOrFalsy_def falsy_def split: option.splits json.splits)
  then show ?thesis by (simp add: js_or_def)
qed

text \<open>The success path of \<open>analyzeSentiment\<close>: a parsed value that is not \<open>null\<close>, both coercions done.\<close>

lemma analyzeSentiment_Parsed:
  assumes "ask (SentimentPrompt body) = Parsed result" and "result \<noteq> JNull"
    and "ToNumber rt (js_or (get result (ascii ''score'')) (JNum 0.5)) = Some s"
    and "ToNumber rt (js_or (get result (ascii ''confidence'')) (JNum 0.5)) = Some c"
  shows "analyzeSentiment rt ask body =
     \<lparr>score = clamp01 s,
      label = js_or (get result (ascii ''label'')) (JStr (ascii ''neutral'')),
      confidence = clamp01 c\<rparr>"
  using assms by (cases result) (simp_all add: analyzeSentiment_def)

lemma analyzeSentiment_fallback:
  "ask (SentimentPrompt body) = Failed \<or> ask (SentimentPrompt body) = Parsed JNull \<Longrightarrow>
   analyzeSentiment rt ask body = neutralSentiment"
  by (auto simp: analyzeSentiment_def)

lemma analyzeSentiment_throws:
  assumes "ask (SentimentPrompt body) = Parsed result"
    and "ToNumber rt (js_or (get result (ascii ''score'')) (JNum 0.5)) = None \<or>
         ToNumber rt (js_or (get result (ascii ''confidence'')) (JNum 0.5)) = None"
  shows "analyzeSentiment rt ask body = neutralSentiment"
  using assms by (cases result) (auto simp: analyzeSentiment_def split: option.splits)

lemma neutral_in_unit: "in_unit (score neutralSentiment) \<and> in_unit (confidence neutralSentiment)"
  by (simp add: neutralSentiment_def)

text \<open>
  Claim C5, as amended. When the collaborator call fails (the client throws, the content
  is not JSON, the content parses to \<open>null\<close>, or a coercion throws), \<open>analyzeSentiment\<close>
  returns exactly the neutral fallback \<open>{score: 0.5, label: 'neutral', confidence: 0.1}\<close>.
  When the parsed response has a score field and a confidence field that are each a JSON
  number or falsy (absent, \<open>null\<close>, \<open>false\<close>, \<open>0\<close>, the empty string), the returned score and
  confidence lie in \<open>[0,1]\<close>; a non-zero number is clamped to \<open>max 0 (min 1 r)\<close>.
\<close>

theorem analyzeSentiment_bounds:
  "(ask (SentimentPrompt body) = Failed \<or> ask (SentimentPrompt body) = Parsed JNull \<or>
    (ask (SentimentPrompt body) = Parsed result \<and>
     (ToNumber rt (js_or (get result (ascii ''score'')) (JNum 0.5)) = None \<or>
      ToNumber rt (js_or (get result (ascii ''confidence'')) (JNum 0.5)) = None))
      \<longrightarrow> analyzeSentiment rt ask body = neutralSentiment) \<and>
   (ask (SentimentPrompt body) = Parsed result \<and>
    numberOrFalsy (get result (ascii ''score'')) \<and> numberOrFalsy (get result (ascii ''confidence''))
      \<longrightarrow> in_unit (score (analyzeSentiment rt ask body)) \<and>
          in_unit (confidence (analyzeSentiment rt ask body))) \<and>
   (ask (SentimentPrompt body) = Parsed result \<and>
    get result (ascii ''score'') = Some (JNum r) \<and> r \<noteq> 0 \<and>
    numberOrFalsy (get result (ascii ''confidence''))
      \<longrightarrow> score (analyzeSentiment rt ask body) = Num (max 0 (min 1 r))) \<and>
   (ask (SentimentPrompt body) = Parsed result \<and>
    get result (ascii ''confidence'') = Some (JNum c) \<and> c \<noteq> 0 \<and>
    numberOrFalsy (get result (ascii ''score''))
      \<longrightarrow> confidence (analyzeSentiment rt ask body) = Num (max 0 (min 1 c)))"
proof (intro conjI impI)
  assume "ask (SentimentPrompt body) = Failed \<or> ask (SentimentPrompt body) = Parsed JNull \<or>
    (ask (SentimentPrompt body) = Parsed result \<and>
     (ToNumber rt (js_or (get result (ascii ''score'')) (JNum 0.5)) = None \<or>
      ToNumber rt (js_or (get result (ascii ''confidence'')) (JNum 0.5)) = None))"
  then show "analyzeSentiment rt ask body = neutralSentiment"
    using analyzeSentiment_fallback [of ask body rt] analyzeSentiment_throws [of ask body result rt]
    by blast
next
  assume a: "ask (SentimentPrompt body) = Parsed result \<and>
    numberOrFalsy (get result (ascii ''score'')) \<and> numberOrFalsy (get result (ascii ''confidence''))"
  have both: "in_unit (score (analyzeSentiment rt ask body)) \<and>
              in_unit (confidence (analyzeSentiment rt ask body))"
  proof (cases "result = JNull")
    case True
    with a show ?thesis
      using analyzeSentiment_fallback [of ask body rt] neutral_in_unit by simp
  next
    case False
    from a obtain x y where
      "ToNumber rt (js_or (get result (ascii ''score'')) (JNum 0.5)) = Some (Num x)"
      "ToNumber rt (js_or (get result (ascii ''confidence'')) (JNum 0.5)) = Some (Num y)"
      using coerce_numberOrFalsy by blast
    with a False show ?thesis
      by (simp add: analyzeSentiment_Parsed in_unit_clamp01)
  qed
  from both show "in_unit (score (analyzeSentiment rt ask body))" by simp
  from both show "in_unit (confidence (analyzeSentiment rt ask body))" by simp
next
  assume a: "ask (SentimentPrompt body) = Parsed result \<and>
    get result (ascii ''score'') = Some (JNum r) \<and> r \<noteq> 0 \<and>
    numberOrFalsy (get result (ascii ''confidence''))"
  then have n: "result \<noteq> JNull" by auto
  from a have s: "ToNumber rt (js_or (get result (ascii ''score'')) (JNum 0.5)) = Some (Num r)"
    by (simp add: js_or_def)
  from a obtain y where "ToNumber rt (js_or (get result (ascii ''confidence'')) (JNum 0.5)) = Some (Num y)"
    using coerce_numberOrFalsy by blast
  with a n s show "score (analyzeSentiment rt ask body) = Num (max 0 (min 1 r))"
    by (simp add: analyzeSentiment_Parsed clamp01_Num)
next
  assume a: "ask (SentimentPrompt body) = Parsed result \<and>
    get result (ascii ''confidence'') = Some (JNum c) \<and> c \<noteq> 0 \<and>
    numberOrFalsy (get result (ascii ''score''))"
  then have n: "result \<noteq> JNull" by auto
  from a have s: "ToNumber rt (js_or (get result (ascii ''confidence'')) (JNum 0.5)) = Some (Num c)"
    by (simp add: js_or_def)
  from a obtain y where "ToNumber rt (js_or (get result (ascii ''score'')) (JNum 0.5)) = Some (Num y)"
    using coerce_numberOrFalsy by blast
  with a n s show "confidence (analyzeSentiment rt ask body) = Num (max 0 (min 1 c))"
    by (simp add: analyzeSentiment_Parsed clamp01_Num)
qed

text \<open>
  The theorem at two responses: an outage, and a response whose score 1.7 and confidence
  -3 are both out of range.
\<close>

theorem analyzeSentiment_bounds_witness:
  "analyzeSentiment rtExample (llmAlways Failed) (ascii ''gm'') = neutralSentiment \<and>
   score (analyzeSentiment rtExample
            (llmAlways (Parsed (JObj [(ascii ''score'', JNum 1.7), (ascii ''confidence'', JNum (-3))])))
            (ascii ''gm'')) = Num 1 \<and>
   confidence (analyzeSentiment rtExample
            (llmAlways (Parsed (JObj [(ascii ''score'', JNum 1.7), (ascii ''confidence'', JNum (-3))])))
            (ascii ''gm'')) = Num 0 \<and>
   in_unit (score (analyzeSentiment rtExample
            (llmAlways (Parsed (JObj [(ascii ''score'', JNum 1.7), (ascii ''confidence'', JNum (-3))])))
            (ascii ''gm'')))"
proof -
  let ?r = "JObj [(ascii ''score'', JNum 1.7), (ascii ''confidence'', JNum (-3))]"
  have g: "get ?r (ascii ''score'') = Some (JNum 1.7)" "get ?r (ascii ''confidence'') = Some (JNum (-3))"
    by (simp_all add: ascii_def)
  have f: "llmAlways Failed (SentimentPrompt (ascii ''gm'')) = Failed"
    "llmAlways (Parsed ?r) (SentimentPrompt (ascii ''gm'')) = Parsed ?r"
    by (simp_all add: llmAlways_def)
  have n: "numberOrFalsy (Some (JNum 1.7))" "numberOrFalsy (Some (JNum (-3)))"
    by (simp_all add: numberOrFalsy_def)
  from analyzeSentiment_bounds [of "llmAlways Failed" "ascii ''gm''" ?r rtExample "1.7" "-3"] f
  have 1: "analyzeSentiment rtExample (llmAlways Failed) (ascii ''gm'') = neutralSentiment"
    by simp
  from analyzeSentiment_bounds [of "llmAlways (Parsed ?r)" "ascii ''gm''" ?r rtExample "1.7" "-3"] f g n
  have 2: "in_unit (score (analyzeSentiment rtExample (llmAlways (Parsed ?r)) (ascii ''gm''))) \<and>
           score (analyzeSentiment rtExample (llmAlways (Parsed ?r)) (ascii ''gm'')) = Num (max 0 (min 1 1.7)) \<and>
           confidence (analyzeSentiment rtExample (llmAlways (Parsed ?r)) (ascii ''gm'')) = Num (max 0 (min 1 (-3)))"
    by simp
  from 1 2 show ?thesis by simp
qed

text \<open>
  Claim C5 as stated fails: a response whose score field is an object, here
  \<open>{"score": {}, "confidence": 0.9}\<close>, is a successful call, and the score returned is
  \<open>NaN\<close>, which is not in \<open>[0,1]\<close>.
\<close>

theorem analyzeSentiment_bounds_counterexample:
  "\<not> in_unit (score (analyzeSentiment rtExample
        (llmAlways (Parsed (JObj [(ascii ''score'', JObj []), (ascii ''confidence'', JNum 0.9)])))
        (ascii ''gm'')))"
  by (simp add: analyzeSentiment_def llmAlways_def js_or_def clamp01_def js_min_def js_max_def ascii_def)

text \<open>
  Claim C10, as amended. On the success path, a score field that is \<open>0\<close>, absent or
  otherwise falsy is replaced by 0.5 before clamping, and so is a falsy confidence field;
  a reported score of exactly 0 is therefore returned as 0.5. When the score field is a
  JSON number, the score returned is 0 exactly when that number is negative; and when
  the confidence field is a JSON number, the confidence returned is 0 exactly when that
  number is negative. Nothing is said here of when a field that is not a JSON number (a
  string or an array, which the runtime coerces) comes back as 0.
\<close>

theorem analyzeSentiment_falsy_default:
  assumes "ask (SentimentPrompt body) = Parsed result" and "result \<noteq> JNull"
    and "ToNumber rt (js_or (get result (ascii ''score'')) (JNum 0.5)) = Some s"
    and "ToNumber rt (js_or (get result (ascii ''confidence'')) (JNum 0.5)) = Some c"
  shows "(falsy (get result (ascii ''score'')) \<longrightarrow> score (analyzeSentiment rt ask body) = Num 0.5) \<and>
    (falsy (get result (ascii ''confidence'')) \<longrightarrow> confidence (analyzeSentiment rt ask body) = Num 0.5) \<and>
    (get result (ascii ''score'') = Some (JNum 0) \<longrightarrow> score (analyzeSentiment rt ask body) = Num 0.5) \<and>
    (\<forall>x. get result (ascii ''score'') = Some (JNum x) \<longrightarrow>
       (score (analyzeSentiment rt ask body) = Num 0 \<longleftrightarrow> x < 0)) \<and>
    (\<forall>y. get result (ascii ''confidence'') = Some (JNum y) \<longrightarrow>
       (confidence (analyzeSentiment rt ask body) = Num 0 \<longleftrightarrow> y < 0))"
proof -
  have r: "analyzeSentiment rt ask body =
     \<lparr>score = clamp01 s,
      label = js_or (get result (ascii ''label'')) (JStr (ascii ''neutral'')),
      confidence = clamp01 c\<rparr>"
    using assms by (rule analyzeSentiment_Parsed)
  have half: "clamp01 (Num 0.5) = Num 0.5" by (simp add: clamp01_Num)
  have zero: "\<And>v x. v = (if x \<noteq> 0 then Num x else Num 0.5) \<Longrightarrow> (clamp01 v = Num 0 \<longleftrightarrow> x < 0)"
    by (auto simp: clamp01_Num max_def min_def)
  have fs: "falsy (get result (ascii ''score'')) \<longrightarrow> score (analyzeSentiment rt ask body) = Num 0.5"
    using assms(3) coerce_falsy [of "get result (ascii ''score'')" rt] half by (auto simp: r)
  have fc: "falsy (get result (ascii ''confidence'')) \<longrightarrow> confidence (analyzeSentiment rt ask body) = Num 0.5"
    using assms(4) coerce_falsy [of "get result (ascii ''confidence'')" rt] half by (auto simp: r)
  have z: "get result (ascii ''score'') = Some (JNum 0) \<longrightarrow> score (analyzeSentiment rt ask body) = Num 0.5"
    using fs by (simp add: falsy_def)
  have ns: "\<forall>x. get result (ascii ''score'') = Some (JNum x) \<longrightarrow>
       (score (analyzeSentiment rt ask body) = Num 0 \<longleftrightarrow> x < 0)"
  proof (intro allI impI)
    fix x assume g: "get result (ascii ''score'') = Some (JNum x)"
    with assms(3) have "s = (if x \<noteq> 0 then Num x else Num 0.5)" by (auto simp: js_or_def)
    from zero [OF this] show "score (analyzeSentiment rt ask body) = Num 0 \<longleftrightarrow> x < 0" by (simp add: r)
  qed
  have nc: "\<forall>y. get result (ascii ''confidence'') = Some (JNum y) \<longrightarrow>
       (confidence (analyzeSentiment rt ask body) = Num 0 \<longleftrightarrow> y < 0)"
  proof (intro allI impI)
    fix y assume g: "get result (ascii ''confidence'') = Some (JNum y)"
    with assms(4) have "c = (if y \<noteq> 0 then Num y else Num 0.5)" by (auto simp: js_or_def)
    from zero [OF this] show "confidence (analyzeSentiment rt ask body) = Num 0 \<longleftrightarrow> y < 0" by (simp add: r)
  qed
  from fs fc z ns nc show ?thesis by blast
qed

text \<open>
  The theorem at the response \<open>{"score": 0}\<close>: both fields come back as 0.5; and at the
  response \<open>{"score": -2}\<close>, whose score comes back as 0.
\<close>

theorem analyzeSentiment_falsy_default_witness:
  "score (analyzeSentiment rtExample (llmAlways (Parsed (JObj [(ascii ''score'', JNum 0)]))) (ascii ''gm'')) = Num 0.5 \<and>
   confidence (analyzeSentiment rtExample (llmAlways (Parsed (JObj [(ascii ''score'', JNum 0)]))) (ascii ''gm'')) = Num 0.5 \<and>
   score (analyzeSentiment rtExample (llmAlways (Parsed (JObj [(ascii ''score'', JNum (-2))]))) (ascii ''gm'')) = Num 0"
proof -
  let ?r = "JObj [(ascii ''score'', JNum 0)]"
  let ?q = "JObj [(ascii ''score'', JNum (-2))]"
  have a: "llmAlways (Parsed ?r) (SentimentPrompt (ascii ''gm'')) = Parsed ?r" "?r \<noteq> JNull"
    by (simp_all add: llmAlways_def)
  have g: "get ?r (ascii ''score'') = Some (JNum 0)" "get ?r (ascii ''confidence'') = None"
    by (simp_all add: ascii_def)
  have t: "ToNumber rtExample (js_or (get ?r (ascii ''score'')) (JNum 0.5)) = Some (Num 0.5)"
    "ToNumber rtExample (js_or (get ?r (ascii ''confidence'')) (JNum 0.5)) = Some (Num 0.5)"
    by (simp_all add: js_or_def ascii_def)
  have f: "falsy (get ?r (ascii ''score''))" "falsy (get ?r (ascii ''confidence''))"
    by (simp_all add: g falsy_def)
  from analyzeSentiment_falsy_default
    [of "llmAlways (Parsed ?r)" "ascii ''gm''" ?r rtExample "Num 0.5" "Num 0.5"] a t f
  have 1: "score (analyzeSentiment rtExample (llmAlways (Parsed ?r)) (ascii ''gm'')) = Num 0.5 \<and>
           confidence (analyzeSentiment rtExample (llmAlways (Parsed ?r)) (ascii ''gm'')) = Num 0.5"
    by blast
  have b: "llmAlways (Parsed ?q) (SentimentPrompt (ascii ''gm'')) = Parsed ?q" "?q \<noteq> JNull"
    by (simp_all add: llmAlways_def)
  have h: "get ?q (ascii ''score'') = Some (JNum (-2))" "get ?q (ascii ''confidence'') = None"
    by (simp_all add: ascii_def)
  have u: "ToNumber rtExample (js_or (get ?q (ascii ''score'')) (JNum 0.5)) = Some (Num (-2))"
    "ToNumber rtExample (js_or (get ?q (ascii ''confidence'')) (JNum 0.5)) = Some (Num 0.5)"
    by (simp_all add: js_or_def ascii_def)
  from analyzeSentiment_falsy_default
    [of "llmAlways (Parsed ?q)" "ascii ''gm''" ?q rtExample "Num (-2)" "Num 0.5"] b u h(1)
  have 2: "score (analyzeSentiment rtExample (llmAlways (Parsed ?q)) (ascii ''gm'')) = Num 0"
    by simp
  from 1 2 show ?thesis by blast
qed

text \<open>
  Claim C10 as stated fails in its last part: the response
  \<open>{"score": -1, "confidence": 0.9}\<close> is a successful call, and the score returned is 0.
\<close>

theorem analyzeSentiment_falsy_default_counterexample:
  "score (analyzeSentiment rtExample
        (llmAlways (Parsed (JObj [(ascii ''score'', JNum (-1)), (ascii ''confidence'', JNum 0.9)])))
        (ascii ''gm'')) = Num 0"
  by (simp add: analyzeSentiment_def llmAlways_def js_or_def clamp01_def js_min_def js_max_def ascii_def)

section \<open>Properties of the viral-potential score\<close>

lemma engagementRate_finite: "\<exists>r. engagementRate message = Num r"
  by (simp add: engagementRate_def js_div_def split: option.splits)

lemma engagementRate_no_views:
  "views (metrics message) = None \<or> views (metrics message) = Some 0 \<Longrightarrow>
   engagementRate message = Num 0"
  by (auto simp: engagementRate_def)

lemma no_rate_factor:
  assumes "engagementRate message = Num 0"
  shows "''High engagement rate'' \<notin> set (fst (engagementAndContent emoji message))"
  using assms by (simp add: engagementAndContent_def Let_def fire_def js_gt_def)

lemma factors_after_timing:
  "set (factors (analyzeViralPotential emoji now hour message)) \<subseteq>
     set (fst (engagementAndContent emoji message)) \<union>
     {''Rapid early engagement'', ''Posted during peak hours''}"
  by (auto simp: analyzeViralPotential_def Let_def fire_def)

lemma factors_before_timing:
  "set (fst (engagementAndContent emoji message)) \<subseteq> set (factors (analyzeViralPotential emoji now hour message))"
  by (auto simp: analyzeViralPotential_def Let_def fire_def)

lemma vscore_unit:
  "0 \<le> vscore (analyzeViralPotential emoji now hour message) \<and>
   vscore (analyzeViralPotential emoji now hour message) \<le> 1"
  by (simp add: analyzeViralPotential_def Let_def)

text \<open>
  Claim C9. The engagement rate of every message is a finite number: the division is
  made only by views that are not zero. For a message whose \<open>views\<close> is absent or 0 the
  rate is 0, and the factor \<open>High engagement rate\<close> (the +0.15 for a rate above 0.05) is
  not among the factors \<open>analyzeViralPotential\<close> returns, whatever the emoji test
  matches.
\<close>

theorem engagementRate_views_zero:
  "(\<exists>r. engagementRate message = Num r) \<and>
   (views (metrics message) = None \<or> views (metrics message) = Some 0 \<longrightarrow>
      engagementRate message = Num 0 \<and>
      ''High engagement rate'' \<notin> set (factors (analyzeViralPotential emoji now hour message)))"
proof (intro conjI impI)
  show "\<exists>r. engagementRate message = Num r" by (rule engagementRate_finite)
next
  assume v: "views (metrics message) = None \<or> views (metrics message) = Some 0"
  then show z: "engagementRate message = Num 0" by (rule engagementRate_no_views)
  from no_rate_factor [OF z] factors_after_timing [of emoji now hour message]
  show "''High engagement rate'' \<notin> set (factors (analyzeViralPotential emoji now hour message))"
    by auto
qed

text \<open>The theorem at the scenario's message with its \<open>views\<close> removed.\<close>

theorem engagementRate_views_zero_witness:
  "views (metrics noViewsTweet) = None \<and> engagementRate noViewsTweet = Num 0 \<and>
   ''High engagement rate'' \<notin> set (factors (analyzeViralPotential emojiAlways 0 3 noViewsTweet))"
proof -
  have v: "views (metrics noViewsTweet) = None" by (simp add: noViewsTweet_def)
  with engagementRate_views_zero [of noViewsTweet emojiAlways 0 3] show ?thesis by simp
qed

section \<open>The scenario of the viral-potential score\<close>

lemma emojiRegexLiteral_classes:
  "map classCompiles emojiRegexLiteral = [True, False, False, True, False]"
  by (simp add: emojiRegexLiteral_def classCompiles_def rangeInOrder_def single_def backslash_def)

text \<open>
  Claim C6. The claim says that for the scenario's message \<open>analyzeViralPotential\<close>
  returns a list of factors with \<open>Contains emojis\<close> in it. The code returns nothing: the
  literal of \<open>emojiRegex\<close> in \<open>analyzeContentCharacteristics\<close> does not compile. Its
  second, third and fifth classes each hold a range that is out of order, from U+1F300,
  from \<open>}\<close> and from U+2700 down to the backslash, so the module that holds the literal,
  and \<open>analyzeViralPotential\<close> with it, is rejected when it is loaded.
\<close>

theorem emojiRegex_literal_rejected:
  "\<not> patternCompiles emojiRegexLiteral \<and>
   map classCompiles emojiRegexLiteral = [True, False, False, True, False] \<and>
   filter (Not \<circ> rangeInOrder) (concat emojiRegexLiteral) =
     [(0x1F300, 0x5C), (0x7D, 0x5C), (0x2700, 0x5C)]"
proof (intro conjI)
  show "\<not> patternCompiles emojiRegexLiteral"
    by (simp add: patternCompiles_def emojiRegexLiteral_def classCompiles_def rangeInOrder_def
        single_def backslash_def)
  show "map classCompiles emojiRegexLiteral = [True, False, False, True, False]"
    by (rule emojiRegexLiteral_classes)
  show "filter (Not \<circ> rangeInOrder) (concat emojiRegexLiteral) =
     [(0x1F300, 0x5C), (0x7D, 0x5C), (0x2700, 0x5C)]"
    by (simp add: emojiRegexLiteral_def rangeInOrder_def single_def backslash_def)
qed

text \<open>
  The rest of the scenario, for a pattern that compiles: five factors fire whatever the
  emoji test, and \<open>Contains emojis\<close> fires with them exactly when the test matches the
  text.
\<close>

lemma scenario_meme:
  "list_ex (\<lambda>keyword. str_includes (toLowerCase diamondHandsText) keyword) memeKeywords"
  by (simp add: diamondHandsText_def ascii_def toLowerCase_def memeKeywords_def)

lemma scenario_tally:
  assumes "metrics m = \<lparr>likes = 150, retweets = 45, replies = 23, views = Some 2500\<rparr>"
    and "hashtags m = [ascii ''WAGMI'']"
    and "tweetText m = diamondHandsText"
  shows "engagementAndContent emoji m =
    ([''High like count'', ''Strong retweet activity'', ''High engagement rate''] @
     (if emoji diamondHandsText then [''Contains emojis''] else []) @
     [''Uses trending hashtags'', ''Contains meme language''],
     0.3 + 0.2 + 0.15 + (if emoji diamondHandsText then 0.1 else 0) + 0.15 + 0.15)"
  using assms scenario_meme
  by (simp add: engagementAndContent_def Let_def fire_def analyzeContentCharacteristics_def
      engagementRate_def totalEngagement_def js_div_def js_gt_def)

lemma scenario_other_factors:
  assumes "metrics m = \<lparr>likes = 150, retweets = 45, replies = 23, views = Some 2500\<rparr>"
    and "hashtags m = [ascii ''WAGMI'']"
    and "tweetText m = diamondHandsText"
  shows "{''High like count'', ''Strong retweet activity'', ''Uses trending hashtags''}
      \<subseteq> set (factors (analyzeViralPotential emoji now hour m)) \<and>
    (''Contains emojis'' \<in> set (factors (analyzeViralPotential emoji now hour m))
       \<longleftrightarrow> emoji diamondHandsText) \<and>
    0.75 \<le> snd (engagementAndContent emoji m) \<and>
    vscore (analyzeViralPotential emoji now hour m) \<le> 1"
proof -
  note t = scenario_tally [OF assms, of emoji]
  have sub: "{''High like count'', ''Strong retweet activity'', ''Uses trending hashtags''}
      \<subseteq> set (factors (analyzeViralPotential emoji now hour m))"
    using factors_before_timing [of emoji m now hour] by (simp add: t)
  have e: "''Contains emojis'' \<in> set (factors (analyzeViralPotential emoji now hour m))
       \<longleftrightarrow> emoji diamondHandsText"
    using factors_before_timing [of emoji m now hour] factors_after_timing [of emoji now hour m]
    by (auto simp: t)
  have ge: "0.75 \<le> snd (engagementAndContent emoji m)" by (simp add: t)
  from sub e ge vscore_unit [of emoji now hour m] show ?thesis by blast
qed

section \<open>Properties of the trend analysis\<close>

text \<open>
  Claim C2. In the analysis \<open>analyzeTrend\<close> returns, a token suggestion is present only
  if \<open>sentiment.score > 0.6\<close> and \<open>viralPotential.score > 0.5\<close>; and when this gate fails
  the requests sent to the language model are the sentiment request and the keywords
  request alone, so the request for a token concept is not made. This holds whatever the
  emoji test matches.
\<close>

theorem analyzeTrend_suggestion_gate:
  "(tokenSuggestion (fst (analyzeTrend rt emoji ask now hour m)) \<noteq> None \<longrightarrow>
      js_gt (score (sentiment (fst (analyzeTrend rt emoji ask now hour m)))) (Num 0.6) \<and>
      vscore (viralPotential (fst (analyzeTrend rt emoji ask now hour m))) > 0.5) \<and>
   (\<not> (js_gt (score (sentiment (fst (analyzeTrend rt emoji ask now hour m)))) (Num 0.6) \<and>
        vscore (viralPotential (fst (analyzeTrend rt emoji ask now hour m))) > 0.5) \<longrightarrow>
      snd (analyzeTrend rt emoji ask now hour m) =
        [SentimentPrompt (tweetText m), KeywordsPrompt (tweetText m)])"
  by (simp add: analyzeTrend_def Let_def suggestionGate_def)

lemma scenario_vscore: "vscore (analyzeViralPotential emoji 0 3 scenarioTweet) = 1"
proof -
  have "snd (engagementAndContent emoji scenarioTweet) \<ge> 0.95"
    using scenario_tally [of scenarioTweet emoji] by (simp add: scenarioTweet_def)
  moreover have "postedWithinTwoHours 0 scenarioTweet \<and> totalEngagement scenarioTweet > 50"
    by (simp add: postedWithinTwoHours_def totalEngagement_def scenarioTweet_def)
  ultimately show ?thesis
    by (simp add: analyzeViralPotential_def Let_def fire_def)
qed

lemma scenario_sentiment: "score (analyzeSentiment rtExample bullishLLM diamondHandsText) = Num 0.9"
  by (simp add: analyzeSentiment_def bullishLLM_def js_or_def ascii_def clamp01_def js_min_def js_max_def)

lemma scenario_suggestion:
  "generateTokenSuggestion bullishLLM scenarioTweet =
     Some \<lparr>name = JStr (ascii ''Diamond Hands''), symbol = ascii ''WAGMI'',
           concept = JStr (ascii ''Holders who never sell'')\<rparr>"
  by (simp add: generateTokenSuggestion_def bullishLLM_def tokenPrompt_def ascii_def toUpperCase_def)

text \<open>
  The theorem at the scenario's message: with a language model that answers as asked the
  suggestion is present and both thresholds are passed; during an outage the sentiment is
  the neutral 0.5 and only the two requests are sent.
\<close>

theorem analyzeTrend_suggestion_gate_witness:
  "tokenSuggestion (fst (analyzeTrend rtExample emojiNever bullishLLM 0 3 scenarioTweet)) \<noteq> None \<and>
   js_gt (score (sentiment (fst (analyzeTrend rtExample emojiNever bullishLLM 0 3 scenarioTweet)))) (Num 0.6) \<and>
   vscore (viralPotential (fst (analyzeTrend rtExample emojiNever bullishLLM 0 3 scenarioTweet))) > 0.5 \<and>
   \<not> js_gt (score (sentiment (fst (analyzeTrend rtExample emojiNever (llmAlways Failed) 0 3 scenarioTweet)))) (Num 0.6) \<and>
   snd (analyzeTrend rtExample emojiNever (llmAlways Failed) 0 3 scenarioTweet) =
     [SentimentPrompt diamondHandsText, KeywordsPrompt diamondHandsText]"
proof -
  have p: "tokenSuggestion (fst (analyzeTrend rtExample emojiNever bullishLLM 0 3 scenarioTweet)) \<noteq> None"
    using scenario_vscore scenario_sentiment scenario_suggestion
    by (simp add: analyzeTrend_def Let_def suggestionGate_def js_gt_def scenarioTweet_def)
  have n: "\<not> js_gt (score (sentiment (fst (analyzeTrend rtExample emojiNever (llmAlways Failed) 0 3 scenarioTweet)))) (Num 0.6)"
    by (simp add: analyzeTrend_def Let_def analyzeSentiment_def llmAlways_def neutralSentiment_def js_gt_def)
  have t: "tweetText scenarioTweet = diamondHandsText" by (simp add: scenarioTweet_def)
  from p n t analyzeTrend_suggestion_gate [of rtExample emojiNever bullishLLM 0 3 scenarioTweet]
    analyzeTrend_suggestion_gate [of rtExample emojiNever "llmAlways Failed" 0 3 scenarioTweet]
  show ?thesis by simp
qed

section \<open>Properties of the reply handler\<close>

text \<open>
  Claim C7. \<open>formatReply\<close> puts \<open>@authorUsername\<close> and a space before a content that does
  not contain that mention and leaves a content that contains it as it is; a reply of more
  than 280 code units becomes its first 277 code units followed by \<open>...\<close>, 280 code units
  in all; a reply of at most 280 code units is returned whole.
\<close>

theorem formatReply_mention_and_limit:
  "(\<not> str_includes replyText (ascii ''@'' @ authorUsername message) \<longrightarrow>
      withMention message replyText = ascii ''@'' @ authorUsername message @ ascii '' '' @ replyText) \<and>
   (str_includes replyText (ascii ''@'' @ authorUsername message) \<longrightarrow>
      withMention message replyText = replyText) \<and>
   (length (withMention message replyText) > 280 \<longrightarrow>
      formatReply message replyText = take 277 (withMention message replyText) @ ascii ''...'' \<and>
      length (formatReply message replyText) = 280) \<and>
   (length (withMention message replyText) \<le> 280 \<longrightarrow>
      formatReply message replyText = withMention message replyText)"
  by (simp add: withMention_def formatReply_def Let_def ascii_def)

lemma longReply_no_mention: "\<not> str_includes longReply (ascii ''@'' @ authorUsername scenarioTweet)"
proof -
  have "\<And>n. \<not> str_includes (replicate n (of_char CHR ''a'')) (ascii ''@cryptoenthusiast'')"
  proof -
    fix n show "\<not> str_includes (replicate n (of_char CHR ''a'')) (ascii ''@cryptoenthusiast'')"
      by (induction n) (simp_all add: ascii_def)
  qed
  then show ?thesis by (simp add: longReply_def scenarioTweet_def ascii_def)
qed

text \<open>
  The theorem at a reply of 300 code units to the scenario's message, at the short reply
  \<open>gm\<close>, and at a short reply that already has the mention.
\<close>

theorem formatReply_mention_and_limit_witness:
  "\<not> str_includes longReply (ascii ''@'' @ authorUsername scenarioTweet) \<and>
   length (withMention scenarioTweet longReply) > 280 \<and>
   formatReply scenarioTweet longReply =
     take 277 (ascii ''@cryptoenthusiast '' @ longReply) @ ascii ''...'' \<and>
   length (formatReply scenarioTweet longReply) = 280 \<and>
   formatReply scenarioTweet (ascii ''gm'') = ascii ''@cryptoenthusiast gm'' \<and>
   formatReply scenarioTweet (ascii ''gm @cryptoenthusiast'') = ascii ''gm @cryptoenthusiast''"
proof -
  note n = longReply_no_mention
  from formatReply_mention_and_limit [of longReply scenarioTweet] n
  have w: "withMention scenarioTweet longReply = ascii ''@cryptoenthusiast '' @ longReply"
    by (simp add: scenarioTweet_def ascii_def)
  have l: "length (withMention scenarioTweet longReply) > 280"
    unfolding w by (simp add: longReply_def ascii_def)
  from formatReply_mention_and_limit [of longReply scenarioTweet] l
  have "formatReply scenarioTweet longReply =
     take 277 (withMention scenarioTweet longReply) @ ascii ''...'' \<and>
     length (formatReply scenarioTweet longReply) = 280"
    by blast
  then have f: "formatReply scenarioTweet longReply =
     take 277 (ascii ''@cryptoenthusiast '' @ longReply) @ ascii ''...'' \<and>
     length (formatReply scenarioTweet longReply) = 280"
    unfolding w .
  have s: "\<not> str_includes (ascii ''gm'') (ascii ''@'' @ authorUsername scenarioTweet)"
    by (simp add: scenarioTweet_def ascii_def)
  have sl: "length (withMention scenarioTweet (ascii ''gm'')) \<le> 280"
    by (simp add: withMention_def scenarioTweet_def ascii_def)
  from formatReply_mention_and_limit [of "ascii ''gm''" scenarioTweet] s sl
  have g: "formatReply scenarioTweet (ascii ''gm'') = ascii ''@cryptoenthusiast gm''"
    by (simp add: scenarioTweet_def ascii_def)
  have i: "str_includes (ascii ''gm @cryptoenthusiast'') (ascii ''@'' @ authorUsername scenarioTweet)"
    by (simp add: scenarioTweet_def ascii_def)
  have il: "length (withMention scenarioTweet (ascii ''gm @cryptoenthusiast'')) \<le> 280"
    by (simp add: withMention_def scenarioTweet_def ascii_def)
  from formatReply_mention_and_limit [of "ascii ''gm @cryptoenthusiast''" scenarioTweet] i il
  have h: "formatReply scenarioTweet (ascii ''gm @cryptoenthusiast'') = ascii ''gm @cryptoenthusiast''"
    by simp
  from n l f g h show ?thesis by blast
qed

lemma recordReplies_count:
  "hourlyReplyCount (recordReplies rs s) = hourlyReplyCount s + length rs \<and>
   lastHourReset (recordReplies rs s) = lastHourReset s"
  by (induction rs arbitrary: s) (auto simp: updateReplyTracking_def)

text \<open>
  Claim C3, as amended. The hour is a fixed window that starts at the last reset, not a
  rolling hour. \<open>canReply\<close> answers whether the count it leaves is below the maximum; no
  later than one hour after the window start it leaves the state as it is and answers
  whether the current count is below the maximum, so after \<open>N\<close> replies recorded in a
  window an attempt made no later than one hour after the window start sees \<open>false\<close>;
  once more than one hour has passed since the window start, the call resets the counter
  to 0 and the window start to the current time and, for a maximum that \<open>validateConfig\<close>
  accepts, answers \<open>true\<close>.
\<close>

theorem canReply_fixed_window:
  "fst (canReply maxN t1 t2 s) = (real (hourlyReplyCount (snd (canReply maxN t1 t2 s))) < maxN) \<and>
   (t1 - lastHourReset s \<le> oneHour \<longrightarrow>
      snd (canReply maxN t1 t2 s) = s \<and>
      fst (canReply maxN t1 t2 s) = (real (hourlyReplyCount s) < maxN)) \<and>
   (hourlyReplyCount s = 0 \<and> length rs = N \<and> t1 - lastHourReset s \<le> oneHour \<longrightarrow>
      \<not> fst (canReply (real N) t1 t2 (recordReplies rs s))) \<and>
   (validMaxReplies maxN \<and> t1 - lastHourReset s > oneHour \<longrightarrow>
      fst (canReply maxN t1 t2 s) \<and>
      hourlyReplyCount (snd (canReply maxN t1 t2 s)) = 0 \<and>
      lastHourReset (snd (canReply maxN t1 t2 s)) = t2)"
  by (simp add: canReply_def Let_def resetHourlyCounter_def recordReplies_count validMaxReplies_def)

text \<open>
  The theorem at a maximum of 2: after two replies in a window that began at 0, an
  attempt at one second sees \<open>false\<close>, and an attempt one millisecond after the hour sees
  \<open>true\<close> with the counter back at 0.
\<close>

theorem canReply_fixed_window_witness:
  "validMaxReplies 2 \<and>
   \<not> fst (canReply 2 1000 1000
           (recordReplies [(100, ascii ''alice''), (200, ascii ''bob'')] freshTracking)) \<and>
   snd (canReply 2 1000 1000
           (recordReplies [(100, ascii ''alice''), (200, ascii ''bob'')] freshTracking)) =
     recordReplies [(100, ascii ''alice''), (200, ascii ''bob'')] freshTracking \<and>
   fst (canReply 2 3600001 3600001
           (recordReplies [(100, ascii ''alice''), (200, ascii ''bob'')] freshTracking)) \<and>
   hourlyReplyCount (snd (canReply 2 3600001 3600001
           (recordReplies [(100, ascii ''alice''), (200, ascii ''bob'')] freshTracking))) = 0"
proof -
  let ?rs = "[(100, ascii ''alice''), (200, ascii ''bob'')]"
  have v: "validMaxReplies 2" by (simp add: validMaxReplies_def)
  have f: "hourlyReplyCount freshTracking = 0" "lastHourReset freshTracking = 0"
    by (simp_all add: freshTracking_def)
  have l: "lastHourReset (recordReplies ?rs freshTracking) = 0"
    using recordReplies_count [of ?rs freshTracking] by (simp only: f)
  from canReply_fixed_window [of "real 2" 1000 1000 freshTracking ?rs 2] f
  have a: "\<not> fst (canReply 2 1000 1000 (recordReplies ?rs freshTracking))"
    by (simp add: oneHour_def)
  from canReply_fixed_window [of 2 3600001 3600001 "recordReplies ?rs freshTracking" "[]" 0] v l
  have b: "fst (canReply 2 3600001 3600001 (recordReplies ?rs freshTracking)) \<and>
           hourlyReplyCount (snd (canReply 2 3600001 3600001 (recordReplies ?rs freshTracking))) = 0"
    by (simp add: oneHour_def)
  from canReply_fixed_window [of 2 1000 1000 "recordReplies ?rs freshTracking" "[]" 0] l
  have c: "snd (canReply 2 1000 1000 (recordReplies ?rs freshTracking)) = recordReplies ?rs freshTracking"
    by (simp add: oneHour_def)
  from v a b c show ?thesis by blast
qed

text \<open>
  Claim C3 as stated fails for a rolling hour. With a maximum of 1 and a window that began
  at 0, a reply is recorded at minute 59; the second attempt, at minute 61, is two minutes
  after that reply and sees \<open>canReply() = true\<close>.
\<close>

theorem canReply_fixed_window_counterexample:
  "3660000 - 3540000 < oneHour \<and>
   hourlyReplyCount (recordReplies [(3540000, ascii ''alice'')] freshTracking) = 1 \<and>
   fst (canReply 1 3660000 3660000 (recordReplies [(3540000, ascii ''alice'')] freshTracking))"
  by (simp add: canReply_def Let_def resetHourlyCounter_def updateReplyTracking_def
      freshTracking_def oneHour_def)

lemma canReply_frame:
  "replyHistory (snd (canReply maxN t1 t2 s)) = replyHistory s \<and>
   hourlyReplyCount (snd (canReply maxN t1 t2 s)) \<le> hourlyReplyCount s \<and>
   (t1 - lastHourReset s \<le> oneHour \<longrightarrow> snd (canReply maxN t1 t2 s) = s)"
  by (simp add: canReply_def Let_def resetHourlyCounter_def)

lemma handler_state:
  "fst (snd (replyToTweet_handler maxN dispatch clock s message replyText)) =
     (if success (fst (replyToTweet_handler maxN dispatch clock s message replyText))
      then updateReplyTracking (tRecord clock) (authorId message)
             (snd (canReply maxN (tCanReply clock) (tReset clock) s))
      else snd (canReply maxN (tCanReply clock) (tReset clock) s))"
  by (auto simp: replyToTweet_handler_def Let_def split: prod.splits sum.splits js_error.splits)

text \<open>
  Claim C4, as amended. \<open>replyToTweet\<close> records a reply (it sets \<open>replyHistory[authorId]\<close>
  and adds one to \<open>hourlyReplyCount\<close>) only when the dispatch reports success. When the
  rate limit is reached, the author was replied to recently, the dispatch throws or the
  dispatch reports failure, the result is a failure, \<open>replyHistory\<close> is unchanged and
  \<open>hourlyReplyCount\<close> does not grow: the state left is the one \<open>canReply\<close> leaves, which
  is the state before the call unless more than one hour has passed since the window
  start, when the counter is reset. A failed dispatch consumes no rate-limit budget.
\<close>

theorem replyToTweet_records_on_success:
  "(\<not> fst (canReply maxN (tCanReply clock) (tReset clock) s) \<or>
    hasRecentReply (tRecent clock) (authorId message) (snd (canReply maxN (tCanReply clock) (tReset clock) s)) \<or>
    (\<exists>e. dispatch message (formatReply message replyText) = Inl e) \<or>
    (\<exists>res. dispatch message (formatReply message replyText) = Inr res \<and> \<not> success res)
      \<longrightarrow> \<not> success (fst (replyToTweet_handler maxN dispatch clock s message replyText))) \<and>
   (\<not> success (fst (replyToTweet_handler maxN dispatch clock s message replyText)) \<longrightarrow>
      fst (snd (replyToTweet_handler maxN dispatch clock s message replyText)) =
        snd (canReply maxN (tCanReply clock) (tReset clock) s) \<and>
      replyHistory (fst (snd (replyToTweet_handler maxN dispatch clock s message replyText))) = replyHistory s \<and>
      hourlyReplyCount (fst (snd (replyToTweet_handler maxN dispatch clock s message replyText))) \<le> hourlyReplyCount s \<and>
      (tCanReply clock - lastHourReset s \<le> oneHour \<longrightarrow>
         fst (snd (replyToTweet_handler maxN dispatch clock s message replyText)) = s)) \<and>
   (success (fst (replyToTweet_handler maxN dispatch clock s message replyText)) \<longrightarrow>
      (\<exists>res. dispatch message (formatReply message replyText) = Inr res \<and> success res) \<and>
      fst (snd (replyToTweet_handler maxN dispatch clock s message replyText)) =
        updateReplyTracking (tRecord clock) (authorId message)
          (snd (canReply maxN (tCanReply clock) (tReset clock) s)))"
proof (intro conjI impI)
  assume "\<not> fst (canReply maxN (tCanReply clock) (tReset clock) s) \<or>
    hasRecentReply (tRecent clock) (authorId message) (snd (canReply maxN (tCanReply clock) (tReset clock) s)) \<or>
    (\<exists>e. dispatch message (formatReply message replyText) = Inl e) \<or>
    (\<exists>res. dispatch message (formatReply message replyText) = Inr res \<and> \<not> success res)"
  then show "\<not> success (fst (replyToTweet_handler maxN dispatch clock s message replyText))"
    by (auto simp: replyToTweet_handler_def Let_def split: prod.splits sum.splits js_error.splits)
next
  assume f: "\<not> success (fst (replyToTweet_handler maxN dispatch clock s message replyText))"
  with handler_state [of maxN dispatch clock s message replyText]
  show e: "fst (snd (replyToTweet_handler maxN dispatch clock s message replyText)) =
        snd (canReply maxN (tCanReply clock) (tReset clock) s)" by simp
  from e canReply_frame [of maxN "tCanReply clock" "tReset clock" s]
  show "replyHistory (fst (snd (replyToTweet_handler maxN dispatch clock s message replyText))) = replyHistory s"
    by simp
  from e canReply_frame [of maxN "tCanReply clock" "tReset clock" s]
  show "hourlyReplyCount (fst (snd (replyToTweet_handler maxN dispatch clock s message replyText))) \<le> hourlyReplyCount s"
    by simp
  assume "tCanReply clock - lastHourReset s \<le> oneHour"
  with e canReply_frame [of maxN "tCanReply clock" "tReset clock" s]
  show "fst (snd (replyToTweet_handler maxN dispatch clock s message replyText)) = s"
    by simp
next
  assume t: "success (fst (replyToTweet_handler maxN dispatch clock s message replyText))"
  then show "\<exists>res. dispatch message (formatReply message replyText) = Inr res \<and> success res"
    by (auto simp: replyToTweet_handler_def Let_def split: prod.splits sum.splits js_error.splits if_splits)
  from t handler_state [of maxN dispatch clock s message replyText]
  show "fst (snd (replyToTweet_handler maxN dispatch clock s message replyText)) =
        updateReplyTracking (tRecord clock) (authorId message)
          (snd (canReply maxN (tCanReply clock) (tReset clock) s))" by simp
qed

lemma early_down:
  "botReplyToTweet True platformDown scenarioTweet (formatReply scenarioTweet (ascii ''gm'')) =
     Inr \<lparr>success = False, replyId = None, content = formatReply scenarioTweet (ascii ''gm''),
          error = Some ''Service Unavailable''\<rparr>"
  by (simp add: botReplyToTweet_def platformDown_def)

lemma early_up:
  "botReplyToTweet True platformUp scenarioTweet (formatReply scenarioTweet (ascii ''gm'')) =
     Inr \<lparr>success = True, replyId = Some (ascii ''987''), content = formatReply scenarioTweet (ascii ''gm''),
          error = None\<rparr>"
  by (simp add: botReplyToTweet_def platformUp_def)

lemma early_allowed:
  "canReply 10 (tCanReply earlyClock) (tReset earlyClock) staleTracking = (True, staleTracking)"
  by (simp add: canReply_def Let_def earlyClock_def staleTracking_def oneHour_def)

lemma early_success:
  "success (fst (replyToTweet_handler 10 (botReplyToTweet True platformUp) earlyClock staleTracking
                  scenarioTweet (ascii ''gm'')))"
  using early_up early_allowed
  by (simp add: replyToTweet_handler_def Let_def hasRecentReply_def staleTracking_def scenarioTweet_def
      ascii_def)

text \<open>
  The theorem within the window, at the scenario's message: when the platform is down the
  state is left as it was; when the platform accepts the reply the author is recorded and
  the count grows from 1 to 2.
\<close>

theorem replyToTweet_records_on_success_witness:
  "fst (snd (replyToTweet_handler 10 (botReplyToTweet True platformDown) earlyClock staleTracking
               scenarioTweet (ascii ''gm''))) = staleTracking \<and>
   hourlyReplyCount (fst (snd (replyToTweet_handler 10 (botReplyToTweet True platformUp) earlyClock
               staleTracking scenarioTweet (ascii ''gm'')))) = 2 \<and>
   replyHistory (fst (snd (replyToTweet_handler 10 (botReplyToTweet True platformUp) earlyClock
               staleTracking scenarioTweet (ascii ''gm'')))) (ascii ''user123'') = Some 5600"
proof -
  have w: "tCanReply earlyClock - lastHourReset staleTracking \<le> oneHour"
    by (simp add: earlyClock_def staleTracking_def oneHour_def)
  have d: "\<exists>res. botReplyToTweet True platformDown scenarioTweet (formatReply scenarioTweet (ascii ''gm'')) =
                Inr res \<and> \<not> success res"
    by (simp add: early_down)
  from replyToTweet_records_on_success
    [of 10 earlyClock staleTracking scenarioTweet "botReplyToTweet True platformDown" "ascii ''gm''"]
    d w
  have a: "fst (snd (replyToTweet_handler 10 (botReplyToTweet True platformDown) earlyClock staleTracking
               scenarioTweet (ascii ''gm''))) = staleTracking"
    by blast
  from replyToTweet_records_on_success
    [of 10 earlyClock staleTracking scenarioTweet "botReplyToTweet True platformUp" "ascii ''gm''"]
    early_success early_allowed
  have b: "fst (snd (replyToTweet_handler 10 (botReplyToTweet True platformUp) earlyClock staleTracking
               scenarioTweet (ascii ''gm''))) =
           updateReplyTracking (tRecord earlyClock) (authorId scenarioTweet) staleTracking"
    by simp
  from a b show ?thesis
    by (simp add: updateReplyTracking_def staleTracking_def earlyClock_def scenarioTweet_def)
qed

lemma stale_run:
  "replyToTweet_handler 10 (botReplyToTweet True platformDown) lateClock staleTracking scenarioTweet (ascii ''gm'') =
   (\<lparr>success = False, replyId = None, content = formatReply scenarioTweet (ascii ''gm''),
      error = Some ''Service Unavailable''\<rparr>,
    \<lparr>replyHistory = [ascii ''alice'' \<mapsto> 2000], hourlyReplyCount = 0, lastHourReset = 3601001\<rparr>,
    [formatReply scenarioTweet (ascii ''gm'')])"
  by (simp add: replyToTweet_handler_def canReply_def Let_def staleTracking_def lateClock_def oneHour_def
      resetHourlyCounter_def hasRecentReply_def scenarioTweet_def ascii_def botReplyToTweet_def
      platformDown_def)

text \<open>
  Claim C4 as stated fails: the window began at time 1000 with one reply recorded in it,
  the call is made one millisecond after that window's hour, and the platform is down. The
  dispatch fails, and the call has changed \<open>hourlyReplyCount\<close> from 1 to 0.
\<close>

theorem replyToTweet_records_on_success_counterexample:
  "\<not> success (fst (replyToTweet_handler 10 (botReplyToTweet True platformDown) lateClock staleTracking
                     scenarioTweet (ascii ''gm''))) \<and>
   hourlyReplyCount staleTracking = 1 \<and>
   hourlyReplyCount (fst (snd (replyToTweet_handler 10 (botReplyToTweet True platformDown) lateClock
                     staleTracking scenarioTweet (ascii ''gm'')))) = 0"
  by (simp add: stale_run) (simp add: staleTracking_def)

section \<open>Properties of token creation\<close>















section \<open>Properties of the decision pipeline\<close>

lemma tryBlock_adds:
  "fst (snd (tryBlock username rt emoji w processedTweets message)) =
     insert (tweetId message) processedTweets"
  by (simp add: tryBlock_def Let_def split_beta)

lemma runCalls_grows:
  "processedTweets \<subseteq> fst (snd (runCalls username rt emoji events (processedTweets, waiting)))"
proof (induction events arbitrary: processedTweets waiting)
  case Nil
  then show ?case by simp
next
  case (Cons e events)
  show ?case
  proof (cases e)
    case (Called m)
    with Cons.IH [of processedTweets waiting] Cons.IH [of processedTweets "m # waiting"]
    show ?thesis by (simp add: split_beta)
  next
    case (Resumed w m)
    show ?thesis
    proof (cases "m \<in> set waiting")
      case True
      from Cons.IH [of "insert (tweetId m) processedTweets" "remove1 m waiting"]
      have "processedTweets \<subseteq>
          fst (snd (runCalls username rt emoji events
            (insert (tweetId m) processedTweets, remove1 m waiting)))"
        by blast
      with True Resumed show ?thesis by (simp add: split_beta tryBlock_adds)
    next
      case False
      with Resumed Cons.IH [of processedTweets waiting] show ?thesis by simp
    qed
  qed
qed

lemma processTwitterMessage_skip:
  "tweetId message \<in> processedTweets \<Longrightarrow>
   processTwitterMessage username rt emoji w processedTweets message =
     (alreadyProcessed, processedTweets, [])"
  by (simp add: processTwitterMessage_def)

text \<open>
  A call with no other call in between is the run of its two events: \<open>processTwitterMessage\<close>
  gives what the run returns and the set it leaves.
\<close>

lemma runCalls_one_call:
  "runCalls username rt emoji [Called message, Resumed w message] (processedTweets, []) =
     ([(fst (processTwitterMessage username rt emoji w processedTweets message),
        snd (snd (processTwitterMessage username rt emoji w processedTweets message)))],
      fst (snd (processTwitterMessage username rt emoji w processedTweets message)), [])"
  by (simp add: processTwitterMessage_def split_beta)

text \<open>
  The \<open>catch\<close> branch after the \<open>add\<close>: a language model whose \<open>replyToTweet\<close> is an
  object with a member named \<open>toString\<close> makes the last log line throw; the call returns
  the error analysis, and the id is in the set.
\<close>

lemma tryBlock_catch_after_add:
  "tryBlock (ascii ''memewizard'') rtExample emojiNever
     \<lparr>wAsk = llmAlways (Parsed (JObj [(ascii ''actions'',
         JObj [(ascii ''replyToTweet'', JObj [(ascii ''toString'', JBool True)])])])),
      wRuntime = runtimeReplies, wNow = 0, wHour = 3\<rparr> {} scenarioTweet =
   (errorAnalysis, {ascii ''1234567890''},
    snd (snd (tryBlock (ascii ''memewizard'') rtExample emojiNever
     \<lparr>wAsk = llmAlways (Parsed (JObj [(ascii ''actions'',
         JObj [(ascii ''replyToTweet'', JObj [(ascii ''toString'', JBool True)])])])),
      wRuntime = runtimeReplies, wNow = 0, wHour = 3\<rparr> {} scenarioTweet)))"
  by (simp add: tryBlock_def Let_def split_beta processMessage_def runtimeReplies_def
      getStructuredAnalysis_def structuredPrompt_def llmAlways_def js_or_def opt_get_def
      ascii_def scenarioTweet_def)

text \<open>
  Claim C1, as amended. The \<open>try\<close> block of a call of \<open>processTwitterMessage\<close> leaves the
  id of its message in the processed set, whatever set it ran on and whether it returned
  the analysis or the value of the \<open>catch\<close> branch. From then on, after any run of events
  of any calls, a call that starts with a message of the same id returns
  \<open>shouldReply = false\<close>, \<open>shouldCreateToken = false\<close> and confidence 0, leaves the set and
  the waiting calls as they are and makes no collaborator call, whatever the
  collaborators would answer. So among calls each of which starts after the one before
  it has returned, at most one per message id reaches a decision.
\<close>

theorem processTwitterMessage_skips_recorded:
  assumes "tweetId m2 = tweetId m1"
  shows "tweetId m1 \<in> fst (snd (tryBlock username rt emoji w1 processedTweets m1)) \<and>
    runCalls username rt emoji [Called m2]
      (snd (runCalls username rt emoji between
         (fst (snd (tryBlock username rt emoji w1 processedTweets m1)), waiting))) =
    ([(\<lparr>shouldReply = JBool False, shouldCreateToken = JBool False, replyContent = None,
        tokenConcept = None, analysisConfidence = Num 0, reasoning = AlreadyProcessed\<rparr>, [])],
     snd (runCalls username rt emoji between
         (fst (snd (tryBlock username rt emoji w1 processedTweets m1)), waiting))) \<and>
    processTwitterMessage username rt emoji w2
      (fst (snd (runCalls username rt emoji between
         (fst (snd (tryBlock username rt emoji w1 processedTweets m1)), waiting)))) m2 =
    (\<lparr>shouldReply = JBool False, shouldCreateToken = JBool False, replyContent = None,
      tokenConcept = None, analysisConfidence = Num 0, reasoning = AlreadyProcessed\<rparr>,
     fst (snd (runCalls username rt emoji between
         (fst (snd (tryBlock username rt emoji w1 processedTweets m1)), waiting))),
     [])"
proof -
  let ?s1 = "fst (snd (tryBlock username rt emoji w1 processedTweets m1))"
  let ?st = "snd (runCalls username rt emoji between (?s1, waiting))"
  have r: "tweetId m1 \<in> ?s1" by (simp add: tryBlock_adds)
  have "?s1 \<subseteq> fst ?st" by (rule runCalls_grows)
  with r assms have i: "tweetId m2 \<in> fst ?st" by auto
  obtain s p where st: "?st = (s, p)" by (cases ?st)
  with i have "tweetId m2 \<in> s" by simp
  then have c: "runCalls username rt emoji [Called m2] (s, p) = ([(alreadyProcessed, [])], s, p)"
    by simp
  have d: "processTwitterMessage username rt emoji w2 (fst ?st) m2 = (alreadyProcessed, fst ?st, [])"
    using i by (rule processTwitterMessage_skip)
  from r c d show ?thesis unfolding st by (simp add: alreadyProcessed_def)
qed

lemma scenario_first_call:
  "shouldReply (fst (tryBlock (ascii ''memewizard'') rtExample emojiNever bullishWorld {} scenarioTweet))
     = JBool True \<and>
   shouldCreateToken (fst (tryBlock (ascii ''memewizard'') rtExample emojiNever bullishWorld {} scenarioTweet))
     = JBool True \<and>
   fst (snd (tryBlock (ascii ''memewizard'') rtExample emojiNever bullishWorld {} scenarioTweet))
     = {ascii ''1234567890''}"
  by (simp add: tryBlock_def Let_def split_beta processMessage_def bullishWorld_def
      runtimeReplies_def getStructuredAnalysis_def structuredPrompt_def bullishLLM_def js_or_def
      opt_get_def ascii_def scenarioTweet_def)

text \<open>
  The theorem at the scenario's message: the first call decides to reply and records the
  id; a call that starts after it, during an outage of every collaborator, is skipped.
\<close>

theorem processTwitterMessage_skips_recorded_witness:
  "shouldReply (fst (tryBlock (ascii ''memewizard'') rtExample emojiNever bullishWorld {} scenarioTweet))
     = JBool True \<and>
   runCalls (ascii ''memewizard'') rtExample emojiNever [Called scenarioTweet]
     ({ascii ''1234567890''}, []) =
    ([(\<lparr>shouldReply = JBool False, shouldCreateToken = JBool False, replyContent = None,
        tokenConcept = None, analysisConfidence = Num 0, reasoning = AlreadyProcessed\<rparr>, [])],
     {ascii ''1234567890''}, []) \<and>
   processTwitterMessage (ascii ''memewizard'') rtExample emojiNever outageWorld
      {ascii ''1234567890''} scenarioTweet =
    (\<lparr>shouldReply = JBool False, shouldCreateToken = JBool False, replyContent = None,
      tokenConcept = None, analysisConfidence = Num 0, reasoning = AlreadyProcessed\<rparr>,
     {ascii ''1234567890''}, [])"
proof -
  have e: "tweetId scenarioTweet = tweetId scenarioTweet" by simp
  have f: "fst (snd (tryBlock (ascii ''memewizard'') rtExample emojiNever bullishWorld {} scenarioTweet))
     = {ascii ''1234567890''}"
    using scenario_first_call by blast
  have g: "shouldReply (fst (tryBlock (ascii ''memewizard'') rtExample emojiNever bullishWorld {} scenarioTweet))
     = JBool True"
    using scenario_first_call by blast
  from processTwitterMessage_skips_recorded
    [OF e, of "ascii ''memewizard''" rtExample emojiNever bullishWorld "{}" "[]" "[]" outageWorld]
  show ?thesis unfolding f using g by (simp add: alreadyProcessed_def)
qed

text \<open>
  Claim C1 as stated fails for calls that overlap: two calls with the scenario's message
  both pass the test before either has recorded the id, and both return the decision to
  reply and to create a token.
\<close>

theorem processTwitterMessage_overlap_counterexample:
  "map (shouldReply \<circ> fst)
     (fst (runCalls (ascii ''memewizard'') rtExample emojiNever
        [Called scenarioTweet, Called scenarioTweet,
         Resumed bullishWorld scenarioTweet, Resumed bullishWorld scenarioTweet] ({}, [])))
     = [JBool True, JBool True] \<and>
   map (shouldCreateToken \<circ> fst)
     (fst (runCalls (ascii ''memewizard'') rtExample emojiNever
        [Called scenarioTweet, Called scenarioTweet,
         Resumed bullishWorld scenarioTweet, Resumed bullishWorld scenarioTweet] ({}, [])))
     = [JBool True, JBool True]"
proof -
  have a: "\<And>s. shouldReply (fst (tryBlock (ascii ''memewizard'') rtExample emojiNever bullishWorld s scenarioTweet))
     = JBool True \<and>
     shouldCreateToken (fst (tryBlock (ascii ''memewizard'') rtExample emojiNever bullishWorld s scenarioTweet))
     = JBool True"
    by (simp add: tryBlock_def Let_def split_beta processMessage_def bullishWorld_def
      runtimeReplies_def getStructuredAnalysis_def structuredPrompt_def bullishLLM_def js_or_def
      opt_get_def ascii_def scenarioTweet_def)
  have b: "tweetId scenarioTweet \<notin> {}" by simp
  show ?thesis using a by (simp add: split_beta)
qed

end
